theory Spec2Isabelle
  imports Complex_Main "HOL-Library.Word"
begin

section \<open>Errors and Python helpers\<close>

text \<open>
  The exceptions that \<^verbatim>\<open>utils/dataset.py\<close> raises itself or lets through from the
  libraries it calls. \<open>RuntimeError\<close> and \<open>AssertionError\<close> carry their message.
  \<open>TorchError\<close> stands for the RuntimeError that torch raises for a negative dimension or
  for shapes that do not broadcast, \<open>Cv2Error\<close> for \<^verbatim>\<open>cv2.error\<close>, \<open>StoreError\<close> for a
  failure of lmdb or of pyarrow's deserialisation.
\<close>

datatype error =
    RuntimeError string
  | TorchError
  | IndexError
  | KeyError string
  | ValueError
  | AssertionError string
  | AttributeError
  | ZeroDivisionError
  | Cv2Error
  | StoreError

text \<open>Python's \<^verbatim>\<open>str\<close> on an integer, used by the f-string and by \<^verbatim>\<open>str(seg_id)\<close>.\<close>

fun digits :: "nat \<Rightarrow> string" where
  "digits n = (if n < 10 then [''0123456789'' ! n]
               else digits (n div 10) @ [''0123456789'' ! (n mod 10)])"

declare digits.simps [simp del]

definition str_int :: "int \<Rightarrow> string" where
  "str_int i = (if i < 0 then CHR ''-'' # digits (nat (- i)) else digits (nat i))"

text \<open>\<^verbatim>\<open>xs[i]\<close>: negative indices count from the end, anything else out of range raises.\<close>

definition py_index :: "'a list \<Rightarrow> int \<Rightarrow> error + 'a" where
  "py_index xs i =
     (if 0 \<le> i \<and> i < int (length xs) then Inr (xs ! nat i)
      else if i < 0 \<and> - int (length xs) \<le> i then Inr (xs ! nat (int (length xs) + i))
      else Inl IndexError)"

text \<open>\<^verbatim>\<open>xs[:n]\<close>: a negative bound drops that many elements from the end.\<close>

definition py_slice_to :: "'a list \<Rightarrow> int \<Rightarrow> 'a list" where
  "py_slice_to xs n =
     (if n < 0 then take (length xs - nat (- n)) xs else take (nat n) xs)"

text \<open>\<^verbatim>\<open>xs[-1] = v\<close>: raises IndexError on the empty list.\<close>

definition set_last :: "'a list \<Rightarrow> 'a \<Rightarrow> error + 'a list" where
  "set_last xs v = (if xs = [] then Inl IndexError else Inr (xs[length xs - 1 := v]))"

section \<open>Tokenizer adapter\<close>

text \<open>
  \<^verbatim>\<open>_tokenizer\<close> is an instance of \<^verbatim>\<open>SimpleTokenizer\<close>, which lives in another module. The
  adapter consumes only its \<^verbatim>\<open>encode\<close> method and the two entries
  \<^verbatim>\<open>encoder["<|startoftext|>"]\<close> and \<^verbatim>\<open>encoder["<|endoftext|>"]\<close>; they are the three
  fields of the record, so every result below holds for any tokenizer.
\<close>

record tokenizer =
  encode :: "string \<Rightarrow> int list"
  sot_token :: int
  eot_token :: int

text \<open>The argument \<^verbatim>\<open>texts: Union[str, List[str]]\<close>.\<close>

datatype texts = Str string | StrList "string list"

text \<open>
  The body of the loop over \<^verbatim>\<open>all_tokens\<close> for one text: the tokens of the text between
  the two special tokens, cut or rejected when longer than \<open>context_length\<close>, then written
  at the left of a row of \<open>context_length\<close> zeros. At the write
  \<^verbatim>\<open>result[i, :len(tokens)] = torch.tensor(tokens)\<close> the tokens are never longer than the row.
\<close>

definition too_long_msg :: "string \<Rightarrow> int \<Rightarrow> string" where
  "too_long_msg text context_length =
     ''Input '' @ text @ '' is too long for context length '' @ str_int context_length"

definition tokenize_one :: "tokenizer \<Rightarrow> int \<Rightarrow> bool \<Rightarrow> string \<Rightarrow> error + int list" where
  "tokenize_one tk context_length trunc text =
     (let tokens = [sot_token tk] @ encode tk text @ [eot_token tk];
          write = (\<lambda>toks. toks @ replicate (nat context_length - length toks) 0)
      in if int (length tokens) > context_length then
           if trunc then
             (case set_last (py_slice_to tokens context_length) (eot_token tk) of
                Inl e \<Rightarrow> Inl e
              | Inr toks \<Rightarrow> Inr (write toks))
           else Inl (RuntimeError (too_long_msg text context_length))
         else Inr (write tokens))"

fun tokenize_rows :: "tokenizer \<Rightarrow> int \<Rightarrow> bool \<Rightarrow> string list \<Rightarrow> error + int list list" where
  "tokenize_rows tk context_length trunc [] = Inr []"
| "tokenize_rows tk context_length trunc (t # ts) =
     (case tokenize_one tk context_length trunc t of
        Inl e \<Rightarrow> Inl e
      | Inr row \<Rightarrow>
          (case tokenize_rows tk context_length trunc ts of
             Inl e \<Rightarrow> Inl e
           | Inr rows \<Rightarrow> Inr (row # rows)))"

text \<open>
  \<^verbatim>\<open>tokenize\<close>. The result tensor of shape (number of texts, \<open>context_length\<close>) is the list
  of its rows. \<^verbatim>\<open>torch.zeros\<close> allocates it before the loop and refuses a negative
  dimension.
\<close>

definition tokenize :: "tokenizer \<Rightarrow> texts \<Rightarrow> int \<Rightarrow> bool \<Rightarrow> error + int list list" where
  "tokenize tk txts context_length trunc =
     (let ts = (case txts of Str s \<Rightarrow> [s] | StrList l \<Rightarrow> l)
      in if context_length < 0 then Inl TorchError
         else tokenize_rows tk context_length trunc ts)"

text \<open>A small tokenizer for concrete runs: one token per character, CLIP's special ids.\<close>

definition char_tokenizer :: tokenizer where
  "char_tokenizer =
     \<lparr>encode = map (\<lambda>c. int (of_char c)), sot_token = 49406, eot_token = 49407\<rparr>"

section \<open>Geometric transform engine\<close>

type_synonym point = "real \<times> real"

text \<open>A 2x3 affine matrix, as its two rows.\<close>

type_synonym mat = "(real \<times> real \<times> real) \<times> (real \<times> real \<times> real)"

definition apply_mat :: "mat \<Rightarrow> point \<Rightarrow> point" where
  "apply_mat m p =
     (case (m, p) of (((a, b, c), (d, e, f)), (x, y)) \<Rightarrow>
        (a * x + b * y + c, d * x + e * y + f))"

text \<open>
  \<^verbatim>\<open>cv2.getAffineTransform(src, dst)\<close> is OpenCV's: the matrix of the affine map through
  three point pairs, which it finds by solving the two 3x3 linear systems with rows
  \<open>(x\<^sub>i, y\<^sub>i, 1)\<close>. The solution is written out here by Cramer's rule, in exact
  arithmetic on the reals; \<open>getAffineTransform_maps\<close> and \<open>getAffineTransform_unique\<close>
  check it against that description.
\<close>

definition det3 :: "real \<times> real \<times> real \<Rightarrow> real \<times> real \<times> real \<Rightarrow> real \<times> real \<times> real \<Rightarrow> real" where
  "det3 r0 r1 r2 =
     (case (r0, r1, r2) of ((a, b, c), (d, e, f), (g, h, i)) \<Rightarrow>
        a * (e * i - f * h) - b * (d * i - f * g) + c * (d * h - e * g))"

definition solve3 :: "point \<times> point \<times> point \<Rightarrow> real \<times> real \<times> real \<Rightarrow> real \<times> real \<times> real" where
  "solve3 ps rhs =
     (case (ps, rhs) of (((x0, y0), (x1, y1), (x2, y2)), (u0, u1, u2)) \<Rightarrow>
        (let dt = det3 (x0, y0, 1) (x1, y1, 1) (x2, y2, 1)
         in (det3 (u0, y0, 1) (u1, y1, 1) (u2, y2, 1) / dt,
             det3 (x0, u0, 1) (x1, u1, 1) (x2, u2, 1) / dt,
             det3 (x0, y0, u0) (x1, y1, u1) (x2, y2, u2) / dt)))"

definition getAffineTransform :: "point \<times> point \<times> point \<Rightarrow> point \<times> point \<times> point \<Rightarrow> mat" where
  "getAffineTransform src dst =
     (case dst of ((u0, v0), (u1, v1), (u2, v2)) \<Rightarrow>
        (solve3 src (u0, u1, u2), solve3 src (v0, v1, v2)))"

text \<open>The fields that both dataset classes set in \<^verbatim>\<open>__init__\<close> and that the shared methods read.\<close>

record dataset_base =
  mode :: string
  input_size :: "int \<times> int"
  word_length :: int
  mean :: "real list"
  std :: "real list"

text \<open>
  The first three lines of \<^verbatim>\<open>getTransformMat\<close>: \<open>(scale, new_h, new_w, bias_x, bias_y)\<close>.
  The sizes are Python integers and \<^verbatim>\<open>/\<close> is true division.
\<close>

definition fit_canvas :: "int \<times> int \<Rightarrow> int \<times> int \<Rightarrow> real \<times> real \<times> real \<times> real \<times> real" where
  "fit_canvas inp img_size =
     (case (inp, img_size) of ((inp_h, inp_w), (ori_h, ori_w)) \<Rightarrow>
        (let scale = min (real_of_int inp_h / real_of_int ori_h)
                         (real_of_int inp_w / real_of_int ori_w);
             new_h = real_of_int ori_h * scale;
             new_w = real_of_int ori_w * scale;
             bias_x = (real_of_int inp_w - new_w) / 2;
             bias_y = (real_of_int inp_h - new_h) / 2
         in (scale, new_h, new_w, bias_x, bias_y)))"

text \<open>
  \<^verbatim>\<open>getTransformMat\<close>, the same in \<^verbatim>\<open>RefDataset\<close> and \<^verbatim>\<open>EndoVisDataset\<close>. A zero height or
  width raises ZeroDivisionError in the first line. The casts of \<open>src\<close> and \<open>dst\<close> to
  \<^verbatim>\<open>np.float32\<close> round; the model keeps the exact values.
\<close>

definition getTransformMat ::
  "'a dataset_base_scheme \<Rightarrow> int \<times> int \<Rightarrow> bool \<Rightarrow> error + (mat \<times> mat option)" where
  "getTransformMat self img_size want_inverse =
     (case img_size of (ori_h, ori_w) \<Rightarrow>
        if ori_h = 0 \<or> ori_w = 0 then Inl ZeroDivisionError
        else
          (case fit_canvas (input_size self) img_size of
             (scale, new_h, new_w, bias_x, bias_y) \<Rightarrow>
               (let src = ((0, 0), (real_of_int ori_w, 0), (0, real_of_int ori_h));
                    dst = ((bias_x, bias_y), (new_w + bias_x, bias_y), (bias_x, new_h + bias_y));
                    mat = getAffineTransform src dst
                in if want_inverse then Inr (mat, Some (getAffineTransform dst src))
                   else Inr (mat, None))))"

section \<open>Arrays and the sample-tensor converter\<close>

text \<open>
  A numpy array or torch tensor: its element type and its elements, as nested lists in
  row-major order. Element values are reals: an 8-bit pixel is its value, and a cast between
  element types keeps the value (the rounding of a cast to 32-bit floats is not modelled).
\<close>

datatype dtype = UInt8 | Float32 | Float64

record 'a ndarray =
  dtype :: dtype
  elems :: 'a

text \<open>An image of shape (H, W, C), or (C, H, W) after \<^verbatim>\<open>convert\<close>; a mask of shape (H, W).\<close>

type_synonym image = "real list list list ndarray"
type_synonym plane = "real list list ndarray"

text \<open>\<^verbatim>\<open>img.shape[:2]\<close>.\<close>

definition shape2 :: "image \<Rightarrow> int \<times> int" where
  "shape2 img =
     (int (length (elems img)), (case elems img of [] \<Rightarrow> 0 | row # _ \<Rightarrow> int (length row)))"

text \<open>
  \<^verbatim>\<open>a.transpose((2, 0, 1))\<close> on the elements: entry \<open>(c, h, w)\<close> of the result is entry
  \<open>(h, w, c)\<close> of \<open>a\<close>. The channel count, \<^verbatim>\<open>a.shape[2]\<close>, is read off the first pixel. The
  nested lists of an array with no pixels do not hold it; such an array is taken to have the
  three channels of the colour images that the decoders return, so that its transpose is the
  empty tensor of three channels, as in numpy.
\<close>

definition channels :: "real list list list \<Rightarrow> nat" where
  "channels a = (case a of (px # _) # _ \<Rightarrow> length px | _ \<Rightarrow> 3)"

definition transpose_201 :: "real list list list \<Rightarrow> real list list list" where
  "transpose_201 a = map (\<lambda>c. map (map (\<lambda>px. px ! c)) a) [0..<channels a]"

text \<open>\<^verbatim>\<open>if not isinstance(t, torch.FloatTensor): t = t.float()\<close>.\<close>

definition to_float :: "'a ndarray \<Rightarrow> 'a ndarray" where
  "to_float t = (if dtype t = Float32 then t else t\<lparr>dtype := Float32\<rparr>)"

text \<open>\<^verbatim>\<open>t.div_(255.)\<close> on a tensor of three dimensions.\<close>

definition div_scalar :: "real \<Rightarrow> image \<Rightarrow> image" where
  "div_scalar k t = t\<lparr>elems := map (map (map (\<lambda>v. v / k))) (elems t)\<rparr>"

text \<open>
  \<^verbatim>\<open>t.sub_(m)\<close> and \<^verbatim>\<open>t.div_(m)\<close> for \<open>t\<close> of shape (C, H, W) and \<open>m\<close> of shape (n, 1, 1),
  with \<open>n = 3\<close> as \<^verbatim>\<open>__init__\<close> builds \<^verbatim>\<open>self.mean\<close> and \<^verbatim>\<open>self.std\<close>: entry \<open>c\<close> of \<open>m\<close> is
  applied to the whole of channel \<open>c\<close>, and torch refuses an in-place operation when the
  channel counts differ.
\<close>

definition per_channel :: "(real \<Rightarrow> real \<Rightarrow> real) \<Rightarrow> real list \<Rightarrow> image \<Rightarrow> error + image" where
  "per_channel f m t =
     (if length (elems t) = length m
      then Inr (t\<lparr>elems := map2 (\<lambda>chan k. map (map (\<lambda>v. f v k)) chan) (elems t) m\<rparr>)
      else Inl TorchError)"

text \<open>Sequencing of steps that may raise.\<close>

definition bindE :: "error + 'a \<Rightarrow> ('a \<Rightarrow> error + 'b) \<Rightarrow> error + 'b" where
  "bindE r f = (case r of Inl e \<Rightarrow> Inl e | Inr v \<Rightarrow> f v)"

text \<open>\<^verbatim>\<open>convert\<close>, the same in both classes.\<close>

definition convert ::
  "'a dataset_base_scheme \<Rightarrow> image \<Rightarrow> plane option \<Rightarrow> error + (image \<times> plane option)" where
  "convert self img msk =
     (let img = to_float (img\<lparr>elems := transpose_201 (elems img)\<rparr>)
      in bindE (per_channel (\<lambda>v k. v - k) (mean self) (div_scalar 255 img)) (\<lambda>img.
         bindE (per_channel (\<lambda>v k. v / k) (std self) img) (\<lambda>img.
         Inr (img, map_option to_float msk))))"

definition clip_mean :: "real list" where
  "clip_mean = [0.48145466, 0.4578275, 0.40821073]"

definition clip_std :: "real list" where
  "clip_std = [0.26862954, 0.26130258, 0.27577711]"

section \<open>External collaborators\<close>

type_synonym bytes = "8 word list"

text \<open>The fields \<^verbatim>\<open>num_sents\<close> and \<^verbatim>\<open>sents\<close>, common to a store record and a manifest entry.\<close>

record sentences =
  num_sents :: int
  sents :: "string list"

text \<open>A deserialised record of the store (\<^verbatim>\<open>ref\<close> in \<^verbatim>\<open>RefDataset.__getitem__\<close>).\<close>

record ref = sentences +
  ref_img :: bytes
  ref_mask :: bytes
  seg_id :: int

text \<open>An element of the JSON manifest (\<^verbatim>\<open>ref\<close> in \<^verbatim>\<open>EndoVisDataset.__getitem__\<close>).\<close>

record entry = sentences +
  img_path :: string
  mask_path :: string

text \<open>
  An lmdb environment opened read-only, with its values already deserialised by
  \<^verbatim>\<open>loads_pyarrow\<close>: the entries under \<^verbatim>\<open>b'__len__'\<close> and \<^verbatim>\<open>b'__keys__'\<close>, and the records
  under the other keys. \<open>None\<close> is a key that \<^verbatim>\<open>txn.get\<close> does not find.
\<close>

record store =
  len_entry :: "int option"
  keys_entry :: "string list option"
  records :: "string \<rightharpoonup> ref"

datatype interp = INTER_LINEAR | INTER_CUBIC

text \<open>
  The libraries and the file system, as the functions the datasets call. The decoders and
  readers return \<open>None\<close> where OpenCV returns \<^verbatim>\<open>None\<close>; \<^verbatim>\<open>cv2.warpAffine\<close> is taken as total.
  \<open>tok\<close> is the module's \<^verbatim>\<open>_tokenizer\<close>. \<open>albumentations\<close> is the pipeline that
  \<^verbatim>\<open>EndoVisDataset.__init__\<close> composes for an input size; its first argument after the size
  is the state of the random generator it draws from.
\<close>

record libs =
  tok :: tokenizer
  lmdb_open :: "string \<Rightarrow> store option"
  load_manifest :: "string \<Rightarrow> entry list option"
  imdecode_color :: "bytes \<Rightarrow> image option"
  imdecode_gray :: "bytes \<Rightarrow> plane option"
  imread_color :: "string \<Rightarrow> image option"
  imread_gray :: "string \<Rightarrow> plane option"
  warpAffine :: "image \<Rightarrow> mat \<Rightarrow> int \<times> int \<Rightarrow> interp \<Rightarrow> real list \<Rightarrow> image"
  warpAffine_gray :: "plane \<Rightarrow> mat \<Rightarrow> int \<times> int \<Rightarrow> interp \<Rightarrow> real \<Rightarrow> plane"
  albumentations :: "int \<Rightarrow> nat \<Rightarrow> image \<Rightarrow> plane \<Rightarrow> image \<times> plane"

text \<open>\<^verbatim>\<open>cv2.cvtColor(img, cv2.COLOR_BGR2RGB)\<close>: the channels of every pixel in reverse order.\<close>

definition cvtColor_BGR2RGB :: "image \<Rightarrow> image" where
  "cvtColor_BGR2RGB img = img\<lparr>elems := map (map rev) (elems img)\<rparr>"

text \<open>\<^verbatim>\<open>os.path.join(a, b)\<close> on POSIX paths.\<close>

definition path_join :: "string \<Rightarrow> string \<Rightarrow> string" where
  "path_join a b =
     (if b \<noteq> [] \<and> hd b = CHR ''/'' then b
      else if a = [] \<or> last a = CHR ''/'' then a @ b
      else a @ ''/'' @ b)"

text \<open>
  \<^verbatim>\<open>np.random.choice(n)\<close> for an integer \<open>n\<close>. It raises for \<open>n \<le> 0\<close>, and otherwise returns
  one of \<open>0, ..., n - 1\<close>, each with the same probability. \<open>draw\<close> is what the global
  generator supplies at this call; the value returned is its residue modulo \<open>n\<close>, so that it
  lies in the range for every \<open>draw\<close>, and each value of the range comes from equally many
  of the draws below any multiple of \<open>n\<close> (\<open>np_random_choice_uniform\<close>).
\<close>

definition np_random_choice :: "int \<Rightarrow> nat \<Rightarrow> error + int" where
  "np_random_choice n draw = (if n \<le> 0 then Inl ValueError else Inr (int draw mod n))"

text \<open>\<^verbatim>\<open>mask / 255.\<close> on a numpy array: a new array of 64-bit floats.\<close>

definition div255 :: "plane \<Rightarrow> plane" where
  "div255 msk = \<lparr>dtype = Float64, elems = map (map (\<lambda>v. v / 255)) (elems msk)\<rparr>"

text \<open>
  \<^verbatim>\<open>.squeeze(0)\<close> on the result of \<^verbatim>\<open>tokenize\<close>. For one text the tensor has one row, and the
  result is that row; a tensor with another number of rows would stay as it is, and is
  written flattened.
\<close>

fun squeeze0 :: "int list list \<Rightarrow> int list" where
  "squeeze0 [row] = row"
| "squeeze0 rows = concat rows"

definition border_value :: "real list" where
  "border_value = [0.48145466 * 255, 0.4578275 * 255, 0.40821073 * 255]"

text \<open>The parameter dictionaries of val and test mode, and what \<^verbatim>\<open>__getitem__\<close> returns.\<close>

record val_params =
  mask_path_p :: string
  inverse_p :: "mat option"
  ori_size_p :: "int \<times> int"

record test_params = val_params +
  ori_img_p :: image
  seg_id_p :: int
  sents_p :: "string list"

datatype sample =
    Train image "int list" "plane option"
  | Val image "int list" val_params
  | Test image test_params

section \<open>Store-backed dataset\<close>

text \<open>The table \<^verbatim>\<open>info\<close> of corpus sizes, by dataset and split.\<close>

definition info :: "(string \<times> (string \<times> int) list) list" where
  "info =
     [(''refcoco'', [(''train'', 42404), (''val'', 3811), (''val-test'', 3811),
                     (''testA'', 1975), (''testB'', 1810)]),
      (''refcoco+'', [(''train'', 42278), (''val'', 3805), (''val-test'', 3805),
                      (''testA'', 1975), (''testB'', 1798)]),
      (''refcocog_u'', [(''train'', 42226), (''val'', 2573), (''val-test'', 2573),
                        (''test'', 5023)]),
      (''refcocog_g'', [(''train'', 44822), (''val'', 5000), (''val-test'', 5000)])]"

text \<open>\<^verbatim>\<open>info[dataset][split]\<close>.\<close>

definition info_lookup :: "string \<Rightarrow> string \<Rightarrow> error + int" where
  "info_lookup ds sp =
     (case map_of info ds of
        None \<Rightarrow> Inl (KeyError ds)
      | Some tbl \<Rightarrow> (case map_of tbl sp of None \<Rightarrow> Inl (KeyError sp) | Some n \<Rightarrow> Inr n))"

text \<open>
  The attributes of a \<^verbatim>\<open>RefDataset\<close>. \<open>env\<close> is the store handle; \<open>keys\<close> is \<open>None\<close> as long
  as \<^verbatim>\<open>_init_db\<close> has not assigned the attribute. \<open>opens\<close> is not an attribute: it counts the
  handles that \<^verbatim>\<open>lmdb.open\<close> has returned to this object.
\<close>

record RefDataset = dataset_base +
  lmdb_dir :: string
  mask_dir :: string
  dataset :: string
  split :: string
  len :: int
  env :: "store option"
  keys :: "string list option"
  opens :: nat

definition RefDataset_init ::
  "string \<Rightarrow> string \<Rightarrow> string \<Rightarrow> string \<Rightarrow> string \<Rightarrow> int \<Rightarrow> int \<Rightarrow> error + RefDataset" where
  "RefDataset_init lmdb_dir' mask_dir' dataset' split' mode' input_size' word_length' =
     bindE (info_lookup dataset' split') (\<lambda>n.
       Inr \<lparr>mode = mode', input_size = (input_size', input_size'),
            word_length = word_length', mean = clip_mean, std = clip_std,
            lmdb_dir = lmdb_dir', mask_dir = mask_dir', dataset = dataset', split = split',
            len = n, env = None, keys = None, opens = 0\<rparr>)"

text \<open>
  \<^verbatim>\<open>_init_db\<close>. Each assignment takes effect before the next call can raise, so the object
  keeps what was assigned before a failure.
\<close>

definition init_db :: "libs \<Rightarrow> RefDataset \<Rightarrow> (error + unit) \<times> RefDataset" where
  "init_db lb self =
     (case lmdb_open lb (lmdb_dir self) of
        None \<Rightarrow> (Inl StoreError, self)
      | Some st \<Rightarrow>
          (let self = self\<lparr>env := Some st, opens := opens self + 1\<rparr>
           in case len_entry st of
                None \<Rightarrow> (Inl StoreError, self)
              | Some n \<Rightarrow>
                  (let self = self\<lparr>len := n\<rparr>
                   in case keys_entry st of
                        None \<Rightarrow> (Inl StoreError, self)
                      | Some ks \<Rightarrow> (Inr (), self\<lparr>keys := Some ks\<rparr>))))"

text \<open>\<^verbatim>\<open>__len__\<close>.\<close>

definition RefDataset_len :: "RefDataset \<Rightarrow> int" where
  "RefDataset_len self = len self"

text \<open>
  \<^verbatim>\<open>RefDataset.__getitem__\<close> from the warp of the image to the end: the three mode
  branches, for the record \<open>r\<close>, its decoded image \<open>ori_img\<close> and the sentence index \<open>idx\<close>.
\<close>

definition RefDataset_sample ::
  "libs \<Rightarrow> RefDataset \<Rightarrow> ref \<Rightarrow> image \<Rightarrow> int \<Rightarrow> error + sample" where
  "RefDataset_sample lb self r ori_img idx =
     (let img = cvtColor_BGR2RGB ori_img;
          img_size = shape2 img;
          mask_path' = path_join (mask_dir self) (str_int (seg_id r) @ ''.png'')
      in bindE (getTransformMat self img_size True) (\<lambda>(mat, mat_inv).
         let img = warpAffine lb img mat (input_size self) INTER_CUBIC border_value
         in if mode self = ''train'' then
              (case imdecode_gray lb (ref_mask r) of
                 None \<Rightarrow> Inl Cv2Error
               | Some msk \<Rightarrow>
                   (let msk = warpAffine_gray lb msk mat (input_size self) INTER_LINEAR 0;
                        msk = div255 msk
                    in bindE (py_index (sents r) idx) (\<lambda>sent.
                       bindE (tokenize (tok lb) (Str sent) (word_length self) True) (\<lambda>rows.
                       bindE (convert self img (Some msk)) (\<lambda>(img, msk).
                       Inr (Train img (squeeze0 rows) msk))))))
            else if mode self = ''val'' then
              bindE (py_index (sents r) 0) (\<lambda>sent.
              bindE (tokenize (tok lb) (Str sent) (word_length self) True) (\<lambda>rows.
              bindE (convert self img None) (\<lambda>(img, _).
              Inr (Val img (squeeze0 rows)
                     \<lparr>mask_path_p = mask_path', inverse_p = mat_inv,
                      ori_size_p = img_size\<rparr>))))
            else
              bindE (convert self img None) (\<lambda>(img, _).
              Inr (Test img
                     \<lparr>mask_path_p = mask_path', inverse_p = mat_inv, ori_size_p = img_size,
                      ori_img_p = ori_img, seg_id_p = seg_id r, sents_p = sents r\<rparr>))))"

text \<open>
  \<^verbatim>\<open>RefDataset.__getitem__\<close> once the store is open: fetch and decode the record, draw the
  sentence index, then the rest. A handle or a key list that is missing raises AttributeError,
  a key that the store does not hold fails in the deserialisation, and an image that does not
  decode makes \<^verbatim>\<open>cv2.cvtColor\<close> raise.
\<close>

definition RefDataset_fetch :: "libs \<Rightarrow> RefDataset \<Rightarrow> int \<Rightarrow> nat \<Rightarrow> error + sample" where
  "RefDataset_fetch lb self index draw =
     (case env self of
        None \<Rightarrow> Inl AttributeError
      | Some st \<Rightarrow>
          (case keys self of
             None \<Rightarrow> Inl AttributeError
           | Some ks \<Rightarrow>
               bindE (py_index ks index) (\<lambda>k.
                 case records st k of
                   None \<Rightarrow> Inl StoreError
                 | Some r \<Rightarrow>
                     (case imdecode_color lb (ref_img r) of
                        None \<Rightarrow> Inl Cv2Error
                      | Some ori_img \<Rightarrow>
                          bindE (np_random_choice (num_sents r) draw) (\<lambda>idx.
                            RefDataset_sample lb self r ori_img idx)))))"

text \<open>
  \<^verbatim>\<open>RefDataset.__getitem__\<close>: the result, and the object after the call. \<open>draw\<close> is what
  \<^verbatim>\<open>np.random.choice\<close> returns during this access.
\<close>

definition RefDataset_getitem ::
  "libs \<Rightarrow> RefDataset \<Rightarrow> int \<Rightarrow> nat \<Rightarrow> (error + sample) \<times> RefDataset" where
  "RefDataset_getitem lb self index draw =
     (case (if env self = None then init_db lb self else (Inr (), self)) of
        (Inl e, self) \<Rightarrow> (Inl e, self)
      | (Inr _, self) \<Rightarrow> (RefDataset_fetch lb self index draw, self))"

text \<open>The object after a sequence of accesses, each an index with its draw.\<close>

fun RefDataset_accesses :: "libs \<Rightarrow> RefDataset \<Rightarrow> (int \<times> nat) list \<Rightarrow> RefDataset" where
  "RefDataset_accesses lb self [] = self"
| "RefDataset_accesses lb self ((index, draw) # rest) =
     RefDataset_accesses lb (snd (RefDataset_getitem lb self index draw)) rest"

section \<open>Manifest-backed dataset\<close>

record EndoVisDataset = dataset_base +
  data_root :: string
  data_file :: string
  data :: "entry list"
  sents_select_type :: string
  use_vis_aug :: bool

text \<open>
  \<^verbatim>\<open>EndoVisDataset.__init__\<close>. The augmentation pipeline it composes when \<open>use_vis_aug\<close> is set
  is \<open>albumentations lb input_size\<close>.
\<close>

definition EndoVisDataset_init ::
  "libs \<Rightarrow> string \<Rightarrow> string \<Rightarrow> string \<Rightarrow> int \<Rightarrow> int \<Rightarrow> string \<Rightarrow> bool \<Rightarrow> error + EndoVisDataset" where
  "EndoVisDataset_init lb data_root' data_file' mode' input_size' word_length'
       sents_select_type' use_vis_aug' =
     (case load_manifest lb (path_join data_root' data_file') of
        None \<Rightarrow> Inl StoreError
      | Some entries \<Rightarrow>
          Inr \<lparr>mode = mode', input_size = (input_size', input_size'),
               word_length = word_length', mean = clip_mean, std = clip_std,
               data_root = data_root', data_file = data_file', data = entries,
               sents_select_type = sents_select_type', use_vis_aug = use_vis_aug'\<rparr>)"

definition EndoVisDataset_len :: "EndoVisDataset \<Rightarrow> int" where
  "EndoVisDataset_len self = int (length (data self))"

text \<open>The sentence index, by \<^verbatim>\<open>self.sents_select_type\<close>.\<close>

definition select_sentence :: "string \<Rightarrow> int \<Rightarrow> nat \<Rightarrow> error + int" where
  "select_sentence policy n draw =
     (if policy = ''random'' then np_random_choice n draw
      else if policy = ''first'' then Inr 0
      else Inl (AssertionError (''Not support sents_select_type: '' @ policy)))"

text \<open>
  \<^verbatim>\<open>EndoVisDataset.__getitem__\<close> from the warp of the image to the end, for the entry \<open>r\<close>, the
  image \<open>ori_img\<close> read for it and the sentence index \<open>idx\<close>. \<open>aug\<close> is the state of the random
  generator that the augmentation pipeline sees.
\<close>

definition EndoVisDataset_sample ::
  "libs \<Rightarrow> EndoVisDataset \<Rightarrow> entry \<Rightarrow> image \<Rightarrow> int \<Rightarrow> nat \<Rightarrow> error + sample" where
  "EndoVisDataset_sample lb self r ori_img idx aug =
     (let img = cvtColor_BGR2RGB ori_img;
          img_size = shape2 img;
          mask_path' = path_join (data_root self) (mask_path r)
      in bindE (getTransformMat self img_size True) (\<lambda>(mat, mat_inv).
         let img = warpAffine lb img mat (input_size self) INTER_CUBIC border_value
         in if mode self = ''train'' then
              (case imread_gray lb mask_path' of
                 None \<Rightarrow> Inl Cv2Error
               | Some msk \<Rightarrow>
                   (let msk = warpAffine_gray lb msk mat (input_size self) INTER_LINEAR 0;
                        msk = div255 msk;
                        (img, msk) =
                          (if use_vis_aug self
                           then albumentations lb (fst (input_size self)) aug img msk
                           else (img, msk))
                    in bindE (py_index (sents r) idx) (\<lambda>sent.
                       bindE (tokenize (tok lb) (Str sent) (word_length self) True) (\<lambda>rows.
                       bindE (convert self img (Some msk)) (\<lambda>(img, msk).
                       Inr (Train img (squeeze0 rows) msk))))))
            else if mode self = ''val'' then
              bindE (py_index (sents r) 0) (\<lambda>sent.
              bindE (tokenize (tok lb) (Str sent) (word_length self) True) (\<lambda>rows.
              bindE (convert self img None) (\<lambda>(img, _).
              Inr (Val img (squeeze0 rows)
                     \<lparr>mask_path_p = mask_path', inverse_p = mat_inv,
                      ori_size_p = img_size\<rparr>))))
            else
              bindE (convert self img None) (\<lambda>(img, _).
              Inr (Test img
                     \<lparr>mask_path_p = mask_path', inverse_p = mat_inv, ori_size_p = img_size,
                      ori_img_p = ori_img, seg_id_p = 0, sents_p = sents r\<rparr>))))"

text \<open>
  \<^verbatim>\<open>EndoVisDataset.__getitem__\<close>. An image file that cannot be read makes \<^verbatim>\<open>cv2.cvtColor\<close>
  raise, before the sentence-selection policy is looked at.
\<close>

definition EndoVisDataset_getitem ::
  "libs \<Rightarrow> EndoVisDataset \<Rightarrow> int \<Rightarrow> nat \<Rightarrow> nat \<Rightarrow> error + sample" where
  "EndoVisDataset_getitem lb self index draw aug =
     bindE (py_index (data self) index) (\<lambda>r.
       case imread_color lb (path_join (data_root self) (img_path r)) of
         None \<Rightarrow> Inl Cv2Error
       | Some ori_img \<Rightarrow>
           bindE (select_sentence (sents_select_type self) (num_sents r) draw) (\<lambda>idx.
             EndoVisDataset_sample lb self r ori_img idx aug))"

section \<open>Concrete instances\<close>

text \<open>
  Small stand-ins for the libraries, a store with one record and a manifest with one entry,
  on which the results below are run: every buffer decodes to the same 1x2 image and mask,
  and the warp and the augmentation leave their input as it is.
\<close>

definition toy_image :: image where
  "toy_image = \<lparr>dtype = UInt8, elems = [[[255, 0, 51], [0, 102, 255]]]\<rparr>"

definition toy_plane :: plane where
  "toy_plane = \<lparr>dtype = UInt8, elems = [[255, 0]]\<rparr>"

definition toy_ref :: ref where
  "toy_ref = \<lparr>num_sents = 2, sents = [''ab'', ''c''],
              ref_img = [1, 2, 3], ref_mask = [4, 5], seg_id = 7\<rparr>"

definition toy_store :: store where
  "toy_store = \<lparr>len_entry = Some 1, keys_entry = Some [''k0''],
                records = [''k0'' \<mapsto> toy_ref]\<rparr>"

definition toy_entry :: entry where
  "toy_entry = \<lparr>num_sents = 2, sents = [''ab'', ''c''],
                img_path = ''i.png'', mask_path = ''m.png''\<rparr>"

definition toy_libs :: libs where
  "toy_libs =
     \<lparr>tok = char_tokenizer,
      lmdb_open = (\<lambda>d. if d = ''db'' then Some toy_store else None),
      load_manifest = (\<lambda>f. if f = ''root/data.json'' then Some [toy_entry] else None),
      imdecode_color = (\<lambda>b. if b = [] then None else Some toy_image),
      imdecode_gray = (\<lambda>b. if b = [] then None else Some toy_plane),
      imread_color = (\<lambda>f. if f = ''root/i.png'' then Some toy_image else None),
      imread_gray = (\<lambda>f. if f = ''root/m.png'' then Some toy_plane else None),
      warpAffine = (\<lambda>img m sz ip bv. img),
      warpAffine_gray = (\<lambda>msk m sz ip bv. msk),
      albumentations = (\<lambda>sz st img msk. (img, msk))\<rparr>"

definition toy_base :: dataset_base where
  "toy_base = \<lparr>mode = ''val'', input_size = (50, 50), word_length = 4,
               mean = clip_mean, std = clip_std\<rparr>"

text \<open>A \<^verbatim>\<open>RefDataset\<close> on the toy store, already opened, in a given mode.\<close>

definition toy_ref_dataset :: "string \<Rightarrow> RefDataset" where
  "toy_ref_dataset md =
     \<lparr>mode = md, input_size = (50, 50), word_length = 4, mean = clip_mean, std = clip_std,
      lmdb_dir = ''db'', mask_dir = ''masks'', dataset = ''refcoco'', split = ''val'',
      len = 1, env = Some toy_store, keys = Some [''k0''], opens = 1\<rparr>"

text \<open>An \<^verbatim>\<open>EndoVisDataset\<close> on the toy manifest, in a given mode and with a given policy.\<close>

definition toy_endovis :: "string \<Rightarrow> string \<Rightarrow> EndoVisDataset" where
  "toy_endovis md policy =
     \<lparr>mode = md, input_size = (50, 50), word_length = 4, mean = clip_mean, std = clip_std,
      data_root = ''root'', data_file = ''data.json'', data = [toy_entry],
      sents_select_type = policy, use_vis_aug = False\<rparr>"

section \<open>Results on the tokenizer adapter\<close>

lemma take_update_last:
  assumes "0 < n" "n \<le> length ys"
  shows "(take n ys)[n - 1 := v] = take (n - 1) ys @ [v]"
proof -
  obtain k where k: "n = Suc k" using assms(1) by (cases n) auto
  have "take (Suc k) ys = take k ys @ [ys ! k]"
    using assms(2) k by (simp add: take_Suc_conv_app_nth)
  moreover have "length (take k ys) = k" using assms(2) k by simp
  ultimately show ?thesis using k by (simp add: list_update_append)
qed

lemma tokenize_one_truncated:
  assumes "0 < L" "int (length (encode tk text)) + 2 > L"
  shows "tokenize_one tk L True text =
           Inr (take (nat L - 1) (sot_token tk # encode tk text) @ [eot_token tk])"
proof -
  let ?ys = "sot_token tk # encode tk text"
  let ?toks = "[sot_token tk] @ encode tk text @ [eot_token tk]"
  have n: "0 < nat L" "nat L \<le> length ?ys" using assms by auto
  have gt: "int (length ?toks) > L" using assms(2) by simp
  have "?toks = ?ys @ [eot_token tk]" by simp
  then have "take (nat L) ?toks = take (nat L) ?ys"
    using n(2) by (simp only: take_append) simp
  then have sl: "py_slice_to ?toks L = take (nat L) ?ys"
    using assms by (simp add: py_slice_to_def)
  have ne: "take (nat L) ?ys \<noteq> []" using n by auto
  have len: "length (take (nat L) ?ys) = nat L" using n by simp
  have "set_last (take (nat L) ?ys) (eot_token tk)
          = Inr (take (nat L - 1) ?ys @ [eot_token tk])"
    unfolding set_last_def using ne len take_update_last [OF n] by simp
  moreover have "length (take (nat L - 1) ?ys @ [eot_token tk]) = nat L"
    using n by simp
  ultimately show ?thesis
    unfolding tokenize_one_def Let_def using gt sl by simp
qed

lemma tokenize_one_too_long:
  assumes "int (length (encode tk text)) + 2 > L"
  shows "tokenize_one tk L False text = Inl (RuntimeError (too_long_msg text L))"
  using assms by (simp add: tokenize_one_def)

lemma tokenize_one_fits:
  assumes "int (length (encode tk text)) + 2 \<le> L"
  shows "tokenize_one tk L trunc text =
           Inr (sot_token tk # encode tk text @ eot_token tk
                  # replicate (nat L - (length (encode tk text) + 2)) 0)"
  using assms by (simp add: tokenize_one_def)

text \<open>
  C3, as the claim states it: for every text whose token count plus two exceeds the context
  length \<open>L\<close>, \<^verbatim>\<open>tokenize(text, L, truncate=True)\<close> returns a row of length \<open>L\<close> with the
  end-of-text token at position \<open>L - 1\<close>. It fails for \<open>L = 0\<close>: the one-character text
  \<open>a\<close> has three tokens, more than zero, and the call raises IndexError at
  \<^verbatim>\<open>tokens[-1] = eot_token\<close>, because \<^verbatim>\<open>tokens[:0]\<close> is empty.
\<close>

theorem tokenize_truncate_zero_length_raises:
  "int (length (encode char_tokenizer ''a'')) + 2 > 0
   \<and> tokenize char_tokenizer (Str ''a'') 0 True = Inl IndexError"
  by (simp add: tokenize_def tokenize_one_def char_tokenizer_def py_slice_to_def set_last_def)

text \<open>
  C3, amended: for every context length \<open>L \<ge> 1\<close> and every text whose token count plus two
  exceeds \<open>L\<close>, \<^verbatim>\<open>tokenize(text, L, truncate=True)\<close> returns one row of length exactly \<open>L\<close>
  whose entry at position \<open>L - 1\<close> is the end-of-text token; the row is the first \<open>L - 1\<close>
  of the start token followed by the text's tokens, then the end-of-text token.
\<close>

theorem tokenize_truncate_length:
  assumes "0 < L" and "int (length (encode tk text)) + 2 > L"
  shows "\<exists>row. tokenize tk (Str text) L True = Inr [row]
           \<and> length row = nat L
           \<and> row ! (nat L - 1) = eot_token tk
           \<and> row = take (nat L - 1) (sot_token tk # encode tk text) @ [eot_token tk]"
proof -
  let ?row = "take (nat L - 1) (sot_token tk # encode tk text) @ [eot_token tk]"
  have n: "nat L - 1 \<le> length (sot_token tk # encode tk text)" using assms by auto
  have len: "length ?row = nat L" using assms n by simp
  have "length (take (nat L - 1) (sot_token tk # encode tk text)) = nat L - 1"
    using n by simp
  then have last: "?row ! (nat L - 1) = eot_token tk"
    by (metis nth_append_length)
  have "tokenize tk (Str text) L True = Inr [?row]"
    using assms tokenize_one_truncated [OF assms] by (simp add: tokenize_def)
  then show ?thesis using len last by blast
qed

theorem tokenize_truncate_length_witness:
  "(0::int) < 4 \<and> int (length (encode char_tokenizer ''abc'')) + 2 > 4
   \<and> tokenize char_tokenizer (Str ''abc'') 4 True = Inr [[49406, 97, 98, 49407]]"
  using tokenize_truncate_length [of 4 char_tokenizer "''abc''"]
  by (simp add: char_tokenizer_def)

text \<open>
  C4: for every text whose token count plus two exceeds the context length \<open>L\<close>,
  \<^verbatim>\<open>tokenize(text, L, truncate=False)\<close> fails and returns no row, and for a length
  \<open>L \<ge> 0\<close> the failure is the RuntimeError whose message holds the text and \<open>L\<close>; for
  every text that fits, \<^verbatim>\<open>tokenize\<close> returns one row of length \<open>L\<close>: the start token, the
  text's tokens, the end-of-text token, then zeros. (A negative \<open>L\<close> is no length: the
  allocation of the result fails before any text is looked at.)
\<close>

theorem tokenize_no_truncate:
  "(int (length (encode tk text)) + 2 > L \<longrightarrow>
      (\<exists>e. tokenize tk (Str text) L False = Inl e)
      \<and> (0 \<le> L \<longrightarrow> tokenize tk (Str text) L False = Inl (RuntimeError
            (''Input '' @ text @ '' is too long for context length '' @ str_int L))))
   \<and> (int (length (encode tk text)) + 2 \<le> L \<longrightarrow>
      (\<exists>row. tokenize tk (Str text) L trunc = Inr [row] \<and> length row = nat L
         \<and> row = sot_token tk # encode tk text @ eot_token tk
                  # replicate (nat L - (length (encode tk text) + 2)) 0))"
proof (intro conjI impI)
  assume a: "int (length (encode tk text)) + 2 > L"
  show "\<exists>e. tokenize tk (Str text) L False = Inl e"
    using tokenize_one_too_long [OF a] by (simp add: tokenize_def)
  assume "0 \<le> L"
  then show "tokenize tk (Str text) L False = Inl (RuntimeError
            (''Input '' @ text @ '' is too long for context length '' @ str_int L))"
    using tokenize_one_too_long [OF a] by (simp add: tokenize_def too_long_msg_def)
next
  assume a: "int (length (encode tk text)) + 2 \<le> L"
  then have "0 \<le> L" by linarith
  then have "tokenize tk (Str text) L trunc = Inr [sot_token tk # encode tk text @ eot_token tk
                  # replicate (nat L - (length (encode tk text) + 2)) 0]"
    using tokenize_one_fits [OF a] by (simp add: tokenize_def)
  moreover have "length (sot_token tk # encode tk text @ eot_token tk
                  # replicate (nat L - (length (encode tk text) + 2)) 0) = nat L"
    using a by simp
  ultimately show "\<exists>row. tokenize tk (Str text) L trunc = Inr [row] \<and> length row = nat L
         \<and> row = sot_token tk # encode tk text @ eot_token tk
                  # replicate (nat L - (length (encode tk text) + 2)) 0"
    by blast
qed

theorem tokenize_no_truncate_witness:
  "int (length (encode char_tokenizer ''abc'')) + 2 > 4
   \<and> tokenize char_tokenizer (Str ''abc'') 4 False
       = Inl (RuntimeError ''Input abc is too long for context length 4'')
   \<and> int (length (encode char_tokenizer ''abc'')) + 2 \<le> 7
   \<and> tokenize char_tokenizer (Str ''abc'') 7 False = Inr [[49406, 97, 98, 99, 49407, 0, 0]]"
  using tokenize_no_truncate [of 4 char_tokenizer "''abc''" False]
        tokenize_no_truncate [of 7 char_tokenizer "''abc''" False]
  by (simp add: char_tokenizer_def str_int_def digits.simps numeral_eq_Suc)

section \<open>Results on the geometric transform engine\<close>

lemma solve3_rows:
  fixes x0 y0 x1 y1 x2 y2 u0 u1 u2 :: real
  assumes dt: "det3 (x0, y0, 1) (x1, y1, 1) (x2, y2, 1) \<noteq> 0"
    and s: "solve3 ((x0, y0), (x1, y1), (x2, y2)) (u0, u1, u2) = (a, b, c)"
  shows "a * x0 + b * y0 + c = u0" "a * x1 + b * y1 + c = u1" "a * x2 + b * y2 + c = u2"
proof -
  define d where "d = det3 (x0, y0, 1) (x1, y1, 1) (x2, y2, 1)"
  define A where "A = det3 (u0, y0, 1) (u1, y1, 1) (u2, y2, 1)"
  define B where "B = det3 (x0, u0, 1) (x1, u1, 1) (x2, u2, 1)"
  define C where "C = det3 (x0, y0, u0) (x1, y1, u1) (x2, y2, u2)"
  have abc: "a = A / d" "b = B / d" "c = C / d"
    using s by (simp_all add: solve3_def Let_def d_def A_def B_def C_def)
  have d0: "d \<noteq> 0" using dt by (simp add: d_def)
  have e0: "A * x0 + B * y0 + C = u0 * d"
    by (simp add: A_def B_def C_def d_def det3_def algebra_simps)
  have e1: "A * x1 + B * y1 + C = u1 * d"
    by (simp add: A_def B_def C_def d_def det3_def algebra_simps)
  have e2: "A * x2 + B * y2 + C = u2 * d"
    by (simp add: A_def B_def C_def d_def det3_def algebra_simps)
  have r: "a * x + b * y + c = (A * x + B * y + C) / d" for x y
    by (simp add: abc add_divide_distrib)
  show "a * x0 + b * y0 + c = u0" using d0 by (simp only: r e0) simp
  show "a * x1 + b * y1 + c = u1" using d0 by (simp only: r e1) simp
  show "a * x2 + b * y2 + c = u2" using d0 by (simp only: r e2) simp
qed

lemma getAffineTransform_maps:
  assumes "det3 (x0, y0, 1) (x1, y1, 1) (x2, y2, 1) \<noteq> 0"
  shows "apply_mat (getAffineTransform ((x0, y0), (x1, y1), (x2, y2)) (q0, q1, q2)) (x0, y0) = q0"
    and "apply_mat (getAffineTransform ((x0, y0), (x1, y1), (x2, y2)) (q0, q1, q2)) (x1, y1) = q1"
    and "apply_mat (getAffineTransform ((x0, y0), (x1, y1), (x2, y2)) (q0, q1, q2)) (x2, y2) = q2"
proof -
  obtain u0 v0 u1 v1 u2 v2 where q: "q0 = (u0, v0)" "q1 = (u1, v1)" "q2 = (u2, v2)"
    by (cases q0; cases q1; cases q2) auto
  obtain a b c where r1: "solve3 ((x0, y0), (x1, y1), (x2, y2)) (u0, u1, u2) = (a, b, c)"
    by (metis prod_cases3)
  obtain d e f where r2: "solve3 ((x0, y0), (x1, y1), (x2, y2)) (v0, v1, v2) = (d, e, f)"
    by (metis prod_cases3)
  note h1 = solve3_rows [OF assms r1] and h2 = solve3_rows [OF assms r2]
  have m: "getAffineTransform ((x0, y0), (x1, y1), (x2, y2)) ((u0, v0), (u1, v1), (u2, v2))
             = ((a, b, c), (d, e, f))"
    by (simp add: getAffineTransform_def r1 r2)
  show "apply_mat (getAffineTransform ((x0, y0), (x1, y1), (x2, y2)) (q0, q1, q2)) (x0, y0) = q0"
    unfolding q m by (simp add: apply_mat_def h1 h2)
  show "apply_mat (getAffineTransform ((x0, y0), (x1, y1), (x2, y2)) (q0, q1, q2)) (x1, y1) = q1"
    unfolding q m by (simp add: apply_mat_def h1 h2)
  show "apply_mat (getAffineTransform ((x0, y0), (x1, y1), (x2, y2)) (q0, q1, q2)) (x2, y2) = q2"
    unfolding q m by (simp add: apply_mat_def h1 h2)
qed

lemma affine_unique:
  fixes x0 y0 x1 y1 x2 y2 :: real
  assumes dt: "det3 (x0, y0, 1) (x1, y1, 1) (x2, y2, 1) \<noteq> 0"
    and "apply_mat m (x0, y0) = apply_mat m' (x0, y0)"
    and "apply_mat m (x1, y1) = apply_mat m' (x1, y1)"
    and "apply_mat m (x2, y2) = apply_mat m' (x2, y2)"
  shows "m = m'"
proof -
  have key: "a = 0 \<and> b = 0 \<and> c = 0"
    if "a * x0 + b * y0 + c = 0" "a * x1 + b * y1 + c = 0" "a * x2 + b * y2 + c = 0"
    for a b c :: real
  proof -
    define d where "d = det3 (x0, y0, 1) (x1, y1, 1) (x2, y2, 1)"
    have "a * d = (a * x0 + b * y0 + c) * (y1 - y2) + (a * x1 + b * y1 + c) * (y2 - y0)
                  + (a * x2 + b * y2 + c) * (y0 - y1)"
      by (simp add: d_def det3_def algebra_simps)
    then have "a * d = 0" using that by simp
    moreover have "b * d = (a * x0 + b * y0 + c) * (x2 - x1) + (a * x1 + b * y1 + c) * (x0 - x2)
                  + (a * x2 + b * y2 + c) * (x1 - x0)"
      by (simp add: d_def det3_def algebra_simps)
    then have "b * d = 0" using that by simp
    moreover have "d \<noteq> 0" using dt by (simp add: d_def)
    ultimately have "a = 0" "b = 0" by auto
    then show ?thesis using that by simp
  qed
  obtain a b c d e f where m: "m = ((a, b, c), (d, e, f))" by (metis prod_cases3)
  obtain a' b' c' d' e' f' where m': "m' = ((a', b', c'), (d', e', f'))" by (metis prod_cases3)
  have "a - a' = 0 \<and> b - b' = 0 \<and> c - c' = 0"
    using assms(2-4) by (intro key) (simp_all add: m m' apply_mat_def algebra_simps)
  moreover have "d - d' = 0 \<and> e - e' = 0 \<and> f - f' = 0"
    using assms(2-4) by (intro key) (simp_all add: m m' apply_mat_def algebra_simps)
  ultimately show ?thesis by (simp add: m m')
qed

lemma getAffineTransform_unique:
  assumes dt: "det3 (x0, y0, 1) (x1, y1, 1) (x2, y2, 1) \<noteq> 0"
    and "apply_mat m (x0, y0) = q0" "apply_mat m (x1, y1) = q1" "apply_mat m (x2, y2) = q2"
  shows "getAffineTransform ((x0, y0), (x1, y1), (x2, y2)) (q0, q1, q2) = m"
  using affine_unique [OF dt, of _ m] getAffineTransform_maps [OF dt, of q0 q1 q2] assms(2-4)
  by simp

lemma fit_canvas_pos:
  assumes "0 < H" "0 < W" "0 < S"
  shows "0 < min (real_of_int S / real_of_int H) (real_of_int S / real_of_int W)"
  using assms by simp

lemma getTransformMat_closed:
  fixes H W S :: int
  assumes pos: "0 < H" "0 < W" "0 < S" and inp: "input_size self = (S, S)"
  defines "sc \<equiv> min (real_of_int S / real_of_int H) (real_of_int S / real_of_int W)"
  defines "b_x \<equiv> (real_of_int S - real_of_int W * sc) / 2"
  defines "b_y \<equiv> (real_of_int S - real_of_int H * sc) / 2"
  shows "getTransformMat self (H, W) wi =
           Inr (((sc, 0, b_x), (0, sc, b_y)),
                if wi then Some ((1 / sc, 0, - b_x / sc), (0, 1 / sc, - b_y / sc)) else None)"
proof -
  have sc: "0 < sc" unfolding sc_def using pos by simp
  let ?src = "((0, 0), (real_of_int W, 0), (0, real_of_int H))"
  let ?dst = "((b_x, b_y), (real_of_int W * sc + b_x, b_y), (b_x, real_of_int H * sc + b_y))"
  have fc: "fit_canvas (S, S) (H, W) = (sc, real_of_int H * sc, real_of_int W * sc, b_x, b_y)"
    by (simp add: fit_canvas_def Let_def sc_def b_x_def b_y_def)
  have d1: "det3 (0, 0, 1) (real_of_int W, 0, 1) (0, real_of_int H, 1) \<noteq> 0"
    using pos by (simp add: det3_def)
  have d2: "det3 (b_x, b_y, 1) (real_of_int W * sc + b_x, b_y, 1) (b_x, real_of_int H * sc + b_y, 1) \<noteq> 0"
    using pos sc by (simp add: det3_def algebra_simps)
  have fwd: "getAffineTransform ?src ?dst = ((sc, 0, b_x), (0, sc, b_y))"
    by (rule getAffineTransform_unique [OF d1]) (simp_all add: apply_mat_def mult.commute)
  have bwd: "getAffineTransform ?dst ?src = ((1 / sc, 0, - b_x / sc), (0, 1 / sc, - b_y / sc))"
    using sc by (intro getAffineTransform_unique [OF d2]) (simp_all add: apply_mat_def field_simps)
  show ?thesis
    using pos by (simp add: getTransformMat_def inp fc Let_def fwd bwd)
qed

text \<open>
  C1: for every positive original height \<open>H\<close>, width \<open>W\<close> and target size \<open>S\<close>,
  \<^verbatim>\<open>getTransformMat\<close> returns a forward and an inverse matrix such that the inverse map after the
  forward map gives back each of the four corners \<open>(0,0)\<close>, \<open>(W,0)\<close>, \<open>(0,H)\<close>, \<open>(W,H)\<close> of the
  original image, and indeed every point of the original frame. The arithmetic is exact, so
  the points come back exactly; the rounding of the 32-bit floats is outside the model.
\<close>

theorem inverse_after_forward_is_identity:
  fixes H W S :: int
  assumes "0 < H" and "0 < W" and "0 < S" and "input_size self = (S, S)"
  shows "\<exists>m mi. getTransformMat self (H, W) True = Inr (m, Some mi)
           \<and> list_all (\<lambda>p. apply_mat mi (apply_mat m p) = p)
                [(0, 0), (real_of_int W, 0), (0, real_of_int H), (real_of_int W, real_of_int H)]
           \<and> (\<forall>p. apply_mat mi (apply_mat m p) = p)"
proof -
  define sc where "sc = min (real_of_int S / real_of_int H) (real_of_int S / real_of_int W)"
  define b_x where "b_x = (real_of_int S - real_of_int W * sc) / 2"
  define b_y where "b_y = (real_of_int S - real_of_int H * sc) / 2"
  define m :: mat where "m = ((sc, 0, b_x), (0, sc, b_y))"
  define mi :: mat where "mi = ((1 / sc, 0, - b_x / sc), (0, 1 / sc, - b_y / sc))"
  have sc: "0 < sc" unfolding sc_def using assms by simp
  have g: "getTransformMat self (H, W) True = Inr (m, Some mi)"
    using getTransformMat_closed [OF assms, of True]
    by (simp add: m_def mi_def sc_def b_x_def b_y_def)
  have rt: "apply_mat mi (apply_mat m p) = p" for p
    using sc by (cases p) (simp add: apply_mat_def m_def mi_def field_simps)
  show ?thesis using g rt by auto
qed

theorem inverse_after_forward_is_identity_witness:
  "(0::int) < 100 \<and> (0::int) < 200 \<and> (0::int) < 50 \<and> input_size toy_base = (50, 50)
   \<and> getTransformMat toy_base (100, 200) True
       = Inr (((1 / 4, 0, 0), (0, 1 / 4, 25 / 2)), Some ((4, 0, 0), (0, 4, - 50)))
   \<and> apply_mat ((4, 0, 0), (0, 4, - 50))
        (apply_mat ((1 / 4, 0, 0), (0, 1 / 4, 25 / 2)) (200, 100)) = (200, 100)"
proof -
  have h: "(0::int) < 100" "(0::int) < 200" "(0::int) < 50" by simp_all
  have i: "input_size toy_base = (50, 50)" by (simp add: toy_base_def)
  obtain m mi where g: "getTransformMat toy_base (100, 200) True = Inr (m, Some mi)"
    and rt: "\<forall>p. apply_mat mi (apply_mat m p) = p"
    using inverse_after_forward_is_identity [OF h i] by blast
  have c: "getTransformMat toy_base (100, 200) True
             = Inr (((1 / 4, 0, 0), (0, 1 / 4, 25 / 2)), Some ((4, 0, 0), (0, 4, - 50)))"
    using getTransformMat_closed [OF h i, of True] by simp
  from g c have "m = ((1 / 4, 0, 0), (0, 1 / 4, 25 / 2))" "mi = ((4, 0, 0), (0, 4, - 50))"
    by simp_all
  with rt have r: "apply_mat ((4, 0, 0), (0, 4, - 50))
        (apply_mat ((1 / 4, 0, 0), (0, 1 / 4, 25 / 2)) (200, 100)) = (200, 100)"
    by blast
  show ?thesis using h i c r by blast
qed

text \<open>
  C2: for every positive \<open>H\<close>, \<open>W\<close> and target size \<open>S\<close>, with
  \<open>scale = min (S/H) (S/W)\<close>, \<open>new_h = H * scale\<close>, \<open>new_w = W * scale\<close>,
  \<open>bias_x = (S - new_w) / 2\<close> and \<open>bias_y = (S - new_h) / 2\<close>, these are the values that
  \<^verbatim>\<open>getTransformMat\<close> computes, and its forward matrix is the one affine map that sends
  \<open>(0,0)\<close>, \<open>(W,0)\<close>, \<open>(0,H)\<close> to \<open>(bias_x, bias_y)\<close>, \<open>(new_w + bias_x, bias_y)\<close>,
  \<open>(bias_x, new_h + bias_y)\<close>. For a 100x200 image and target size 50 the values are
  0.25, 25, 50, 0 and 12.5.
\<close>

theorem forward_map_from_fit:
  fixes H W S :: int
  assumes "0 < H" and "0 < W" and "0 < S" and "input_size self = (S, S)"
  defines "scale \<equiv> min (real_of_int S / real_of_int H) (real_of_int S / real_of_int W)"
  defines "new_h \<equiv> real_of_int H * scale"
  defines "new_w \<equiv> real_of_int W * scale"
  defines "bias_x \<equiv> (real_of_int S - new_w) / 2"
  defines "bias_y \<equiv> (real_of_int S - new_h) / 2"
  shows "fit_canvas (S, S) (H, W) = (scale, new_h, new_w, bias_x, bias_y)
         \<and> (\<exists>m mi. getTransformMat self (H, W) wi = Inr (m, mi)
              \<and> apply_mat m (0, 0) = (bias_x, bias_y)
              \<and> apply_mat m (real_of_int W, 0) = (new_w + bias_x, bias_y)
              \<and> apply_mat m (0, real_of_int H) = (bias_x, new_h + bias_y)
              \<and> (\<forall>m'. apply_mat m' (0, 0) = (bias_x, bias_y)
                     \<and> apply_mat m' (real_of_int W, 0) = (new_w + bias_x, bias_y)
                     \<and> apply_mat m' (0, real_of_int H) = (bias_x, new_h + bias_y)
                     \<longrightarrow> m' = m))
         \<and> fit_canvas (50, 50) (100, 200) = (1 / 4, 25, 50, 0, 25 / 2)"
proof -
  define m :: mat where "m = ((scale, 0, bias_x), (0, scale, bias_y))"
  have fc: "fit_canvas (S, S) (H, W) = (scale, new_h, new_w, bias_x, bias_y)"
    by (simp add: fit_canvas_def Let_def scale_def new_h_def new_w_def bias_x_def bias_y_def)
  have g: "\<exists>mi. getTransformMat self (H, W) wi = Inr (m, mi)"
    using getTransformMat_closed [OF assms(1-4), of wi]
    by (simp add: m_def scale_def new_h_def new_w_def bias_x_def bias_y_def)
  have p0: "apply_mat m (0, 0) = (bias_x, bias_y)"
    and p1: "apply_mat m (real_of_int W, 0) = (new_w + bias_x, bias_y)"
    and p2: "apply_mat m (0, real_of_int H) = (bias_x, new_h + bias_y)"
    by (simp_all add: apply_mat_def m_def new_w_def new_h_def mult.commute)
  have d: "det3 (0, 0, 1) (real_of_int W, 0, 1) (0, real_of_int H, 1) \<noteq> 0"
    using assms(1,2) by (simp add: det3_def)
  have u: "m' = m"
    if "apply_mat m' (0, 0) = (bias_x, bias_y)
        \<and> apply_mat m' (real_of_int W, 0) = (new_w + bias_x, bias_y)
        \<and> apply_mat m' (0, real_of_int H) = (bias_x, new_h + bias_y)" for m'
    using affine_unique [OF d, of m' m] that p0 p1 p2 by simp
  have ex: "fit_canvas (50, 50) (100, 200) = (1 / 4, 25, 50, 0, 25 / 2)"
    by (simp add: fit_canvas_def Let_def)
  show ?thesis using fc g p0 p1 p2 u ex by blast
qed

theorem forward_map_from_fit_witness:
  "(0::int) < 100 \<and> (0::int) < 200 \<and> (0::int) < 50 \<and> input_size toy_base = (50, 50)
   \<and> apply_mat ((1 / 4, 0, 0), (0, 1 / 4, 25 / 2)) (0, 0) = (0, 25 / 2)
   \<and> apply_mat ((1 / 4, 0, 0), (0, 1 / 4, 25 / 2)) (200, 0) = (50, 25 / 2)
   \<and> apply_mat ((1 / 4, 0, 0), (0, 1 / 4, 25 / 2)) (0, 100) = (0, 75 / 2)
   \<and> getTransformMat toy_base (100, 200) False = Inr (((1 / 4, 0, 0), (0, 1 / 4, 25 / 2)), None)"
proof -
  have h: "(0::int) < 100" "(0::int) < 200" "(0::int) < 50" by simp_all
  have i: "input_size toy_base = (50, 50)" by (simp add: toy_base_def)
  have a: "apply_mat ((1 / 4, 0, 0), (0, 1 / 4, 25 / 2)) (0, 0) = (0, 25 / 2)"
          "apply_mat ((1 / 4, 0, 0), (0, 1 / 4, 25 / 2)) (200, 0) = (50, 25 / 2)"
          "apply_mat ((1 / 4, 0, 0), (0, 1 / 4, 25 / 2)) (0, 100) = (0, 75 / 2)"
    by (simp_all add: apply_mat_def)
  have v: "min (real_of_int 50 / real_of_int 100) (real_of_int 50 / real_of_int 200) = 1 / 4"
    by simp
  note t = forward_map_from_fit [OF h i, of False, unfolded v]
  have t': "\<exists>m mi. getTransformMat toy_base (100, 200) False = Inr (m, mi)
              \<and> (\<forall>m'. apply_mat m' (0, 0) = (0, 25 / 2)
                     \<and> apply_mat m' (200, 0) = (50, 25 / 2)
                     \<and> apply_mat m' (0, 100) = (0, 75 / 2) \<longrightarrow> m' = m)"
    using t by (simp del: split_paired_All split_paired_Ex, blast)
  then obtain m mi where g: "getTransformMat toy_base (100, 200) False = Inr (m, mi)"
    and u: "\<forall>m'. apply_mat m' (0, 0) = (0, 25 / 2)
                \<and> apply_mat m' (200, 0) = (50, 25 / 2)
                \<and> apply_mat m' (0, 100) = (0, 75 / 2) \<longrightarrow> m' = m"
    by blast
  from u a have m: "m = ((1 / 4, 0, 0), (0, 1 / 4, 25 / 2))" by blast
  have "mi = None"
    using g getTransformMat_closed [OF h i, of False] by simp
  then have c: "getTransformMat toy_base (100, 200) False
                  = Inr (((1 / 4, 0, 0), (0, 1 / 4, 25 / 2)), None)"
    using g m by simp
  show ?thesis using h i a c by blast
qed

section \<open>Results on the sample-tensor converter\<close>

lemma to_float_eq: "to_float (t :: 'a ndarray) = \<lparr>dtype = Float32, elems = elems t\<rparr>"
  by (cases t) (simp add: to_float_def)

lemma map2_upt:
  assumes "length m = n"
  shows "map2 F (map g [0..<n]) m = map (\<lambda>c. F (g c) (m ! c)) [0..<n]"
  using assms by (intro nth_equalityI) simp_all

lemma per_channel_upt:
  assumes "length m = n"
  shows "per_channel f m \<lparr>dtype = d, elems = map g [0..<n]\<rparr>
           = Inr \<lparr>dtype = d, elems = map (\<lambda>c. map (map (\<lambda>v. f v (m ! c))) (g c)) [0..<n]\<rparr>"
  using assms by (simp add: per_channel_def map2_upt)

lemma convert_closed:
  assumes "channels (elems img) = length (mean self)"
    and "length (std self) = length (mean self)"
  shows "convert self img msk =
           Inr (\<lparr>dtype = Float32,
                 elems = map (\<lambda>c. map (map (\<lambda>px. (px ! c / 255 - mean self ! c) / std self ! c))
                                   (elems img))
                             [0..<channels (elems img)]\<rparr>,
                map_option (\<lambda>m. \<lparr>dtype = Float32, elems = elems m\<rparr>) msk)"
proof -
  let ?n = "channels (elems img)"
  have t0: "to_float (img\<lparr>elems := transpose_201 (elems img)\<rparr>)
              = \<lparr>dtype = Float32, elems = map (\<lambda>c. map (map (\<lambda>px. px ! c)) (elems img)) [0..<?n]\<rparr>"
    by (simp add: to_float_eq transpose_201_def)
  have t1: "div_scalar 255 \<lparr>dtype = Float32, elems = map (\<lambda>c. map (map (\<lambda>px. px ! c)) (elems img)) [0..<?n]\<rparr>
              = \<lparr>dtype = Float32, elems = map (\<lambda>c. map (map (\<lambda>px. px ! c / 255)) (elems img)) [0..<?n]\<rparr>"
    by (simp add: div_scalar_def comp_def)
  have m: "length (mean self) = ?n" "length (std self) = ?n" using assms by simp_all
  have mo: "map_option to_float msk = map_option (\<lambda>m. \<lparr>dtype = Float32, elems = elems m\<rparr>) msk"
    by (cases msk) (simp_all add: to_float_eq)
  show ?thesis
    unfolding convert_def Let_def t0 t1 per_channel_upt [OF m(1)] bindE_def
    by (simp add: per_channel_upt [OF m(2)] comp_def mo)
qed

text \<open>
  C5: for every image array whose channel count is that of the per-channel constants,
  \<^verbatim>\<open>convert\<close> returns the image channel-first as 32-bit floats, where each value \<open>v\<close> of
  channel \<open>c\<close> has become \<open>((v / 255) - mean[c]) / std[c]\<close>: the division by 255 first, then
  the subtraction of the mean, then the division by the std. A mask given alongside comes
  back as 32-bit floats with its values unchanged.
\<close>

theorem convert_steps:
  assumes "channels (elems img) = length (mean self)"
    and "length (std self) = length (mean self)"
  shows "convert self img msk =
           Inr (\<lparr>dtype = Float32,
                 elems = map (\<lambda>c. map (map (\<lambda>px. (px ! c / 255 - mean self ! c) / std self ! c))
                                   (elems img))
                             [0..<channels (elems img)]\<rparr>,
                map_option (\<lambda>m. \<lparr>dtype = Float32, elems = elems m\<rparr>) msk)"
  using assms by (rule convert_closed)

theorem convert_steps_witness:
  "channels (elems toy_image) = length (mean toy_base)
   \<and> length (std toy_base) = length (mean toy_base)
   \<and> convert toy_base toy_image (Some toy_plane) =
       Inr (\<lparr>dtype = Float32,
             elems = [[[(255 / 255 - 0.48145466) / 0.26862954, (0 / 255 - 0.48145466) / 0.26862954]],
                      [[(0 / 255 - 0.4578275) / 0.26130258, (102 / 255 - 0.4578275) / 0.26130258]],
                      [[(51 / 255 - 0.40821073) / 0.27577711, (255 / 255 - 0.40821073) / 0.27577711]]]\<rparr>,
            Some \<lparr>dtype = Float32, elems = [[255, 0]]\<rparr>)"
proof -
  have c: "channels (elems toy_image) = 3" by (simp add: channels_def toy_image_def)
  have u: "[0..<3] = [0, 1, 2]" by (simp add: upt_rec)
  have h1: "channels (elems toy_image) = length (mean toy_base)"
    and h2: "length (std toy_base) = length (mean toy_base)"
    by (simp_all add: c toy_base_def clip_mean_def clip_std_def)
  show ?thesis
    using h1 h2 convert_steps [OF h1 h2, of "Some toy_plane"]
    by (simp add: c u toy_base_def toy_image_def toy_plane_def clip_mean_def clip_std_def)
qed

section \<open>Results on the store-backed dataset\<close>

lemma bindE_simps [simp]: "bindE (Inl e) f = Inl e" "bindE (Inr v) f = f v"
  by (simp_all add: bindE_def)

lemma init_db_ok:
  assumes "lmdb_open lb (lmdb_dir self) = Some st" "len_entry st = Some n"
    "keys_entry st = Some ks"
  shows "init_db lb self =
           (Inr (), self\<lparr>env := Some st, opens := opens self + 1, len := n, keys := Some ks\<rparr>)"
  using assms by (simp add: init_db_def Let_def)

lemma getitem_opened:
  assumes "env self \<noteq> None"
  shows "RefDataset_getitem lb self index draw = (RefDataset_fetch lb self index draw, self)"
  using assms by (cases "env self") (simp_all add: RefDataset_getitem_def)

lemma getitem_fresh:
  assumes "env self = None" "lmdb_open lb (lmdb_dir self) = Some st" "len_entry st = Some n"
    "keys_entry st = Some ks"
  shows "RefDataset_getitem lb self index draw =
           (RefDataset_fetch lb (self\<lparr>env := Some st, opens := opens self + 1, len := n,
                                      keys := Some ks\<rparr>) index draw,
            self\<lparr>env := Some st, opens := opens self + 1, len := n, keys := Some ks\<rparr>)"
  using assms(1) init_db_ok [OF assms(2-4)] by (simp add: RefDataset_getitem_def)

lemma accesses_opened:
  assumes "env self \<noteq> None"
  shows "RefDataset_accesses lb self accs = self"
  using assms by (induction accs) (auto simp: getitem_opened)

text \<open>
  C7: a \<^verbatim>\<open>RefDataset\<close> as constructed has no store handle, has opened nothing, and reports as
  its length the entry of the table for its dataset and split. When the store opens and holds
  the entries \<^verbatim>\<open>__len__\<close> and \<^verbatim>\<open>__keys__\<close>, the first \<^verbatim>\<open>__getitem__\<close> call, whatever its index,
  leaves the object with that handle, with exactly one handle opened, and with the length and
  the key list of these two entries; every sequence of later calls leaves the object, and so
  the handle, the length, the keys and the count of opened handles, as it is.
\<close>

theorem lazy_open_once:
  assumes "RefDataset_init dir mdir ds sp md isz wl = Inr self0"
    and "lmdb_open lb dir = Some st" and "len_entry st = Some n" and "keys_entry st = Some ks"
  shows "env self0 = None \<and> opens self0 = 0
         \<and> info_lookup ds sp = Inr (RefDataset_len self0)
         \<and> (\<forall>index draw. let self1 = snd (RefDataset_getitem lb self0 index draw) in
               env self1 = Some st \<and> opens self1 = 1
               \<and> RefDataset_len self1 = n \<and> keys self1 = Some ks
               \<and> (\<forall>accs. RefDataset_accesses lb self1 accs = self1))"
proof -
  obtain n0 where l: "info_lookup ds sp = Inr n0"
    using assms(1) by (cases "info_lookup ds sp") (simp_all add: RefDataset_init_def)
  have s0: "self0 = \<lparr>mode = md, input_size = (isz, isz), word_length = wl, mean = clip_mean,
                      std = clip_std, lmdb_dir = dir, mask_dir = mdir, dataset = ds, split = sp,
                      len = n0, env = None, keys = None, opens = 0\<rparr>"
    using assms(1) l by (simp add: RefDataset_init_def)
  have a: "env self0 = None" "opens self0 = 0" "lmdb_dir self0 = dir" "len self0 = n0"
    by (simp_all add: s0)
  have g: "snd (RefDataset_getitem lb self0 index draw)
             = self0\<lparr>env := Some st, opens := opens self0 + 1, len := n, keys := Some ks\<rparr>"
    for index draw
    using getitem_fresh [of self0 lb st n ks index draw] a assms(2-4) by simp
  have "env (snd (RefDataset_getitem lb self0 index draw)) \<noteq> None" for index draw
    by (simp add: g)
  then have r: "RefDataset_accesses lb (snd (RefDataset_getitem lb self0 index draw)) accs
                  = snd (RefDataset_getitem lb self0 index draw)" for index draw accs
    by (rule accesses_opened)
  show ?thesis
    using a l r by (simp add: Let_def g RefDataset_len_def)
qed

theorem lazy_open_once_witness:
  "RefDataset_init ''db'' ''masks'' ''refcoco'' ''val'' ''val'' 50 4
     = Inr ((toy_ref_dataset ''val'')\<lparr>len := 3811, env := None, keys := None, opens := 0\<rparr>)
   \<and> lmdb_open toy_libs ''db'' = Some toy_store
   \<and> len_entry toy_store = Some 1 \<and> keys_entry toy_store = Some [''k0'']
   \<and> info_lookup ''refcoco'' ''val'' = Inr 3811
   \<and> snd (RefDataset_getitem toy_libs
            ((toy_ref_dataset ''val'')\<lparr>len := 3811, env := None, keys := None, opens := 0\<rparr>) 0 0)
       = toy_ref_dataset ''val''
   \<and> RefDataset_accesses toy_libs (toy_ref_dataset ''val'') [(0, 1), (5, 0)]
       = toy_ref_dataset ''val''"
proof -
  let ?s0 = "(toy_ref_dataset ''val'')\<lparr>len := 3811, env := None, keys := None, opens := 0\<rparr>"
  have l: "info_lookup ''refcoco'' ''val'' = Inr 3811"
    by (simp add: info_lookup_def info_def)
  have i: "RefDataset_init ''db'' ''masks'' ''refcoco'' ''val'' ''val'' 50 4 = Inr ?s0"
    by (simp add: RefDataset_init_def l toy_ref_dataset_def)
  have o: "lmdb_open toy_libs ''db'' = Some toy_store" by (simp add: toy_libs_def)
  have e: "len_entry toy_store = Some 1" "keys_entry toy_store = Some [''k0'']"
    by (simp_all add: toy_store_def)
  note t = lazy_open_once [OF i o e]
  from t have t1: "let self1 = snd (RefDataset_getitem toy_libs ?s0 0 0) in
               env self1 = Some toy_store \<and> opens self1 = 1
               \<and> RefDataset_len self1 = 1 \<and> keys self1 = Some [''k0'']
               \<and> (\<forall>accs. RefDataset_accesses toy_libs self1 accs = self1)"
    by blast
  have s1: "snd (RefDataset_getitem toy_libs ?s0 0 0) = toy_ref_dataset ''val''"
    using getitem_fresh [of ?s0 toy_libs toy_store 1 "[''k0'']" 0 0] o e
    by (simp add: toy_ref_dataset_def)
  from t1 have "RefDataset_accesses toy_libs (toy_ref_dataset ''val'') [(0, 1), (5, 0)]
       = toy_ref_dataset ''val''"
    unfolding Let_def s1 by blast
  then show ?thesis using i o e l s1 by blast
qed

lemma tokenize_Str_single:
  assumes "tokenize tk (Str s) L t = Inr rows"
  shows "\<exists>row. rows = [row] \<and> tokenize_one tk L t s = Inr row"
  using assms by (auto simp: tokenize_def split: if_splits sum.splits)

lemma fetch_found:
  assumes "env self = Some st" "keys self = Some ks" "py_index ks index = Inr k"
    "records st k = Some r" "imdecode_color lb (ref_img r) = Some ori_img"
  shows "RefDataset_fetch lb self index draw =
           bindE (np_random_choice (num_sents r) draw) (RefDataset_sample lb self r ori_img)"
  using assms by (simp add: RefDataset_fetch_def)

lemma sample_other_any_idx:
  assumes "mode self \<noteq> ''train''"
  shows "RefDataset_sample lb self r ori_img idx = RefDataset_sample lb self r ori_img 0"
  using assms by (simp add: RefDataset_sample_def Let_def)

lemma fetch_other_any_draw:
  assumes "mode self \<noteq> ''train''"
  shows "RefDataset_fetch lb self index d1 = RefDataset_fetch lb self index d2"
proof -
  have "bindE (np_random_choice n d1) (RefDataset_sample lb self r ori_img)
          = bindE (np_random_choice n d2) (RefDataset_sample lb self r ori_img)" for n r ori_img
    using sample_other_any_idx [OF assms, of lb r ori_img]
    by (simp add: np_random_choice_def) metis
  then show ?thesis
    by (simp add: RefDataset_fetch_def bindE_def split: option.splits sum.splits)
qed

lemma sample_train_tensors:
  assumes "mode self = ''train''"
    and "RefDataset_sample lb self r ori_img idx = Inr (Train i w m)"
    and "RefDataset_sample lb self r ori_img idx' = Inr (Train i' w' m')"
  shows "i = i' \<and> m = m'"
  using assms
  by (auto simp: RefDataset_sample_def Let_def bindE_def
           split: sum.splits option.splits prod.splits)

lemma sample_train_sentence:
  assumes "mode self = ''train''"
    and "RefDataset_sample lb self r ori_img idx = Inr (Train i w m)"
  shows "\<exists>sent. py_index (sents r) idx = Inr sent
           \<and> tokenize (tok lb) (Str sent) (word_length self) True = Inr [w]"
  using assms
  by (auto simp: RefDataset_sample_def Let_def bindE_def
           split: sum.splits option.splits prod.splits dest!: tokenize_Str_single)

lemma sample_val_sentence:
  assumes "mode self = ''val''"
    and "RefDataset_sample lb self r ori_img idx = Inr (Val i w p)"
  shows "\<exists>sent. py_index (sents r) 0 = Inr sent
           \<and> tokenize (tok lb) (Str sent) (word_length self) True = Inr [w]"
  using assms
  by (auto simp: RefDataset_sample_def Let_def bindE_def
           split: sum.splits option.splits prod.splits dest!: tokenize_Str_single)

lemma fetch_train_tensors:
  assumes "mode self = ''train''"
    and "RefDataset_fetch lb self index d1 = Inr (Train i w m)"
    and "RefDataset_fetch lb self index d2 = Inr (Train i' w' m')"
  shows "i = i' \<and> m = m'"
proof -
  from assms(2) obtain st ks k r ori_img where
    f: "env self = Some st" "keys self = Some ks" "py_index ks index = Inr k"
       "records st k = Some r" "imdecode_color lb (ref_img r) = Some ori_img"
    by (auto simp: RefDataset_fetch_def bindE_def split: option.splits sum.splits)
  from assms(2,3) obtain x1 x2 where
    "RefDataset_sample lb self r ori_img x1 = Inr (Train i w m)"
    "RefDataset_sample lb self r ori_img x2 = Inr (Train i' w' m')"
    unfolding fetch_found [OF f] by (auto simp: bindE_def split: sum.splits)
  then show ?thesis using sample_train_tensors [OF assms(1)] by blast
qed

lemma two_accesses:
  assumes "env self = None \<longrightarrow>
             (\<exists>st n ks. lmdb_open lb (lmdb_dir self) = Some st \<and> len_entry st = Some n
                        \<and> keys_entry st = Some ks)"
  shows "\<exists>s. RefDataset_getitem lb self index d1 = (RefDataset_fetch lb s index d1, s)
             \<and> RefDataset_getitem lb s index d2 = (RefDataset_fetch lb s index d2, s)
             \<and> mode s = mode self"
proof (cases "env self")
  case None
  then obtain st n ks where o: "lmdb_open lb (lmdb_dir self) = Some st" "len_entry st = Some n"
      "keys_entry st = Some ks"
    using assms by blast
  let ?s = "self\<lparr>env := Some st, opens := opens self + 1, len := n, keys := Some ks\<rparr>"
  have "RefDataset_getitem lb self index d1 = (RefDataset_fetch lb ?s index d1, ?s)"
    by (rule getitem_fresh [OF None o])
  moreover have "RefDataset_getitem lb ?s index d2 = (RefDataset_fetch lb ?s index d2, ?s)"
    by (rule getitem_opened) simp
  moreover have "mode ?s = mode self" by simp
  ultimately show ?thesis by blast
next
  case (Some st)
  then have "env self \<noteq> None" by simp
  then show ?thesis using getitem_opened by blast
qed

lemma toy_transform:
  "getTransformMat (toy_ref_dataset md) (1, 2) True
     = Inr (((25, 0, 0), (0, 25, 25 / 2)), Some ((1 / 25, 0, 0), (0, 1 / 25, - 1 / 2)))"
  using getTransformMat_closed [of 1 2 50 "toy_ref_dataset md" True]
  by (simp add: toy_ref_dataset_def)

lemma toy_convert:
  "\<exists>t. convert (toy_ref_dataset md) (cvtColor_BGR2RGB toy_image) msk
          = Inr (t, map_option (\<lambda>m. \<lparr>dtype = Float32, elems = elems m\<rparr>) msk)"
  using convert_closed [of "cvtColor_BGR2RGB toy_image" "toy_ref_dataset md" msk]
  by (simp add: channels_def cvtColor_BGR2RGB_def toy_image_def toy_ref_dataset_def
        clip_mean_def clip_std_def)

lemma toy_train_sample:
  "\<exists>i m. RefDataset_getitem toy_libs (toy_ref_dataset ''train'') 0 0
            = (Inr (Train i [49406, 97, 98, 49407] m), toy_ref_dataset ''train'')
         \<and> RefDataset_getitem toy_libs (toy_ref_dataset ''train'') 0 1
            = (Inr (Train i [49406, 99, 49407, 0] m), toy_ref_dataset ''train'')"
proof -
  let ?ds = "toy_ref_dataset ''train''"
  obtain t where c: "convert ?ds (cvtColor_BGR2RGB toy_image) (Some (div255 toy_plane))
          = Inr (t, Some \<lparr>dtype = Float32, elems = elems (div255 toy_plane)\<rparr>)"
    using toy_convert [of "''train''" "Some (div255 toy_plane)"] by auto
  have f: "env ?ds = Some toy_store" "keys ?ds = Some [''k0'']"
      "py_index [''k0''] 0 = Inr ''k0''" "records toy_store ''k0'' = Some toy_ref"
      "imdecode_color toy_libs (ref_img toy_ref) = Some toy_image"
    by (simp_all add: toy_ref_dataset_def py_index_def toy_store_def toy_libs_def toy_ref_def)
  have sh: "shape2 (cvtColor_BGR2RGB toy_image) = (1, 2)"
    by (simp add: shape2_def cvtColor_BGR2RGB_def toy_image_def)
  have md: "mode ?ds = ''train''" "word_length ?ds = 4" "input_size ?ds = (50, 50)"
    by (simp_all add: toy_ref_dataset_def)
  have tk: "tokenize char_tokenizer (Str ''ab'') 4 True = Inr [[49406, 97, 98, 49407]]"
       "tokenize char_tokenizer (Str ''c'') 4 True = Inr [[49406, 99, 49407, 0]]"
    by (simp_all add: tokenize_def tokenize_one_def char_tokenizer_def)
  have lb: "tok toy_libs = char_tokenizer" "imdecode_gray toy_libs (ref_mask toy_ref) = Some toy_plane"
       "warpAffine toy_libs = (\<lambda>img m sz ip bv. img)"
       "warpAffine_gray toy_libs = (\<lambda>msk m sz ip bv. msk)"
    by (simp_all add: toy_libs_def toy_ref_def)
  have sn: "sents toy_ref = [''ab'', ''c'']" "num_sents toy_ref = 2" by (simp_all add: toy_ref_def)
  have s0: "RefDataset_sample toy_libs ?ds toy_ref toy_image 0
              = Inr (Train t [49406, 97, 98, 49407]
                       (Some \<lparr>dtype = Float32, elems = elems (div255 toy_plane)\<rparr>))"
    by (simp add: RefDataset_sample_def Let_def sh toy_transform md lb sn py_index_def tk c)
  have s1: "RefDataset_sample toy_libs ?ds toy_ref toy_image 1
              = Inr (Train t [49406, 99, 49407, 0]
                       (Some \<lparr>dtype = Float32, elems = elems (div255 toy_plane)\<rparr>))"
    by (simp add: RefDataset_sample_def Let_def sh toy_transform md lb sn py_index_def tk c)
  have e: "env ?ds \<noteq> None" by (simp add: toy_ref_dataset_def)
  show ?thesis
    using s0 s1
    by (simp add: getitem_opened [OF e] fetch_found [OF f] sn np_random_choice_def)
qed

lemma second_access_val:
  assumes a: "env self = None \<longrightarrow>
             (\<exists>st n ks. lmdb_open lb (lmdb_dir self) = Some st \<and> len_entry st = Some n
                        \<and> keys_entry st = Some ks)"
    and v: "mode self \<noteq> ''train''"
  shows "fst (RefDataset_getitem lb (snd (RefDataset_getitem lb self index d1)) index d2)
          = fst (RefDataset_getitem lb self index d1)"
proof -
  obtain s where s: "RefDataset_getitem lb self index d1 = (RefDataset_fetch lb s index d1, s)"
      "RefDataset_getitem lb s index d2 = (RefDataset_fetch lb s index d2, s)"
      "mode s = mode self"
    using two_accesses [OF a] by blast
  have "mode s \<noteq> ''train''" using v s(3) by simp
  then have "RefDataset_fetch lb s index d2 = RefDataset_fetch lb s index d1"
    by (rule fetch_other_any_draw)
  then show ?thesis by (simp add: s(1) s(2))
qed

lemma second_access_train:
  assumes a: "env self = None \<longrightarrow>
             (\<exists>st n ks. lmdb_open lb (lmdb_dir self) = Some st \<and> len_entry st = Some n
                        \<and> keys_entry st = Some ks)"
    and t: "mode self = ''train''"
    and a1: "fst (RefDataset_getitem lb self index d1) = Inr (Train i1 w1 m1)"
    and a2: "fst (RefDataset_getitem lb (snd (RefDataset_getitem lb self index d1)) index d2)
                 = Inr (Train i2 w2 m2)"
  shows "i1 = i2 \<and> m1 = m2"
proof -
  obtain s where s: "RefDataset_getitem lb self index d1 = (RefDataset_fetch lb s index d1, s)"
      "RefDataset_getitem lb s index d2 = (RefDataset_fetch lb s index d2, s)"
      "mode s = mode self"
    using two_accesses [OF a] by blast
  have ms: "mode s = ''train''" using t s(3) by simp
  from a1 have b1: "RefDataset_fetch lb s index d1 = Inr (Train i1 w1 m1)" by (simp add: s(1))
  from a2 have b2: "RefDataset_fetch lb s index d2 = Inr (Train i2 w2 m2)"
    by (simp add: s(1) s(2))
  show ?thesis by (rule fetch_train_tensors [OF ms b1 b2])
qed

lemma residue_class_card:
  fixes m j k :: nat
  assumes "j < m"
  shows "card {d. d < k * m \<and> d mod m = j} = k"
proof -
  have "{d. d < k * m \<and> d mod m = j} = (\<lambda>i. i * m + j) ` {..<k}"
  proof (intro set_eqI iffI)
    fix d assume "d \<in> {d. d < k * m \<and> d mod m = j}"
    then have d: "d < k * m" "d mod m = j" by simp_all
    have "d = (d div m) * m + j" using d(2) by (metis div_mult_mod_eq)
    moreover have "d div m < k" using d(1) assms
      by (simp add: less_mult_imp_div_less)
    ultimately show "d \<in> (\<lambda>i. i * m + j) ` {..<k}" by blast
  next
    fix d assume "d \<in> (\<lambda>i. i * m + j) ` {..<k}"
    then obtain i where i: "i < k" "d = i * m + j" by auto
    have "i * m + j < (Suc i) * m" using assms by simp
    also have "\<dots> \<le> k * m" using i(1) by (intro mult_le_mono1) simp
    finally have "d < k * m" using i(2) by simp
    moreover have "d mod m = j" using i(2) assms by simp
    ultimately show "d \<in> {d. d < k * m \<and> d mod m = j}" by simp
  qed
  moreover have "inj_on (\<lambda>i. i * m + j) {..<k}"
    using assms by (auto simp: inj_on_def)
  ultimately show ?thesis by (simp add: card_image)
qed

lemma np_random_choice_range:
  assumes "0 < n"
  shows "np_random_choice n draw = Inr (int draw mod n)
         \<and> 0 \<le> int draw mod n \<and> int draw mod n < n"
  using assms by (simp add: np_random_choice_def)

lemma np_random_choice_uniform:
  assumes "0 < n" "0 \<le> j" "j < n"
  shows "card {d. d < k * nat n \<and> np_random_choice n d = Inr j} = k"
proof -
  have "np_random_choice n d = Inr j \<longleftrightarrow> d mod nat n = nat j" for d
  proof -
    have "int d mod n = int (d mod nat n)" using assms(1) by (simp add: zmod_int)
    then show ?thesis using assms by (auto simp: np_random_choice_def)
  qed
  then have "{d. d < k * nat n \<and> np_random_choice n d = Inr j}
               = {d. d < k * nat n \<and> d mod nat n = nat j}"
    by simp
  moreover have "nat j < nat n" using assms by simp
  ultimately show ?thesis by (simp add: residue_class_card)
qed

lemma getitem_found:
  assumes "env self = Some st" "keys self = Some ks" "py_index ks index = Inr k"
    "records st k = Some r" "imdecode_color lb (ref_img r) = Some ori_img"
    "0 < num_sents r"
  shows "RefDataset_getitem lb self index draw
           = (RefDataset_sample lb self r ori_img (int draw mod num_sents r), self)"
proof -
  have e: "env self \<noteq> None" using assms(1) by simp
  show ?thesis
    using assms(6)
    by (simp add: getitem_opened [OF e] fetch_found [OF assms(1-5)] np_random_choice_def)
qed

lemma getTransformMat_opened:
  "getTransformMat (self\<lparr>env := e, opens := c, len := l, keys := ks\<rparr>) sz w
     = getTransformMat self sz w"
  by (cases sz) (simp add: getTransformMat_def)

lemma convert_opened:
  "convert (self\<lparr>env := e, opens := c, len := l, keys := ks\<rparr>) i m = convert self i m"
  by (simp add: convert_def)

lemma sample_opened:
  "RefDataset_sample lb (self\<lparr>env := e, opens := c, len := l, keys := ks\<rparr>) r ori_img idx
     = RefDataset_sample lb self r ori_img idx"
  by (simp add: RefDataset_sample_def getTransformMat_opened convert_opened split_def Let_def
           cong: option.case_cong if_cong)

lemma getitem_found_any:
  assumes h: "env self = Some st \<and> keys self = Some ks
              \<or> env self = None \<and> lmdb_open lb (lmdb_dir self) = Some st
                 \<and> len_entry st = Some n \<and> keys_entry st = Some ks"
    and f: "py_index ks index = Inr k" "records st k = Some r"
      "imdecode_color lb (ref_img r) = Some ori_img" "0 < num_sents r"
  shows "fst (RefDataset_getitem lb self index draw)
           = RefDataset_sample lb self r ori_img (int draw mod num_sents r)"
  using h
proof (elim disjE conjE)
  assume "env self = Some st" "keys self = Some ks"
  then have "RefDataset_getitem lb self index draw
           = (RefDataset_sample lb self r ori_img (int draw mod num_sents r), self)"
    using f by (intro getitem_found)
  then show ?thesis by simp
next
  assume o: "env self = None" "lmdb_open lb (lmdb_dir self) = Some st"
    "len_entry st = Some n" "keys_entry st = Some ks"
  let ?s = "self\<lparr>env := Some st, opens := opens self + 1, len := n, keys := Some ks\<rparr>"
  have "RefDataset_getitem lb self index draw = (RefDataset_fetch lb ?s index draw, ?s)"
    by (rule getitem_fresh [OF o])
  moreover have "RefDataset_fetch lb ?s index draw
                   = bindE (np_random_choice (num_sents r) draw)
                       (RefDataset_sample lb ?s r ori_img)"
    by (rule fetch_found [OF _ _ f(1-3)]) simp_all
  ultimately show ?thesis
    using f(4) by (simp add: np_random_choice_def sample_opened)
qed

lemma sample_val:
  assumes "mode self = ''val''"
    and "getTransformMat self (shape2 (cvtColor_BGR2RGB ori_img)) True = Inr (mat, mat_inv)"
    and "py_index (sents r) 0 = Inr sent"
    and "tokenize (tok lb) (Str sent) (word_length self) True = Inr [row]"
    and "convert self (warpAffine lb (cvtColor_BGR2RGB ori_img) mat (input_size self)
                         INTER_CUBIC border_value) None = Inr (t, m)"
  shows "RefDataset_sample lb self r ori_img idx =
           Inr (Val t row
                  \<lparr>mask_path_p = path_join (mask_dir self) (str_int (seg_id r) @ ''.png''),
                   inverse_p = mat_inv,
                   ori_size_p = shape2 (cvtColor_BGR2RGB ori_img)\<rparr>)"
  using assms by (simp add: RefDataset_sample_def Let_def)

lemma sample_train:
  assumes "mode self = ''train''"
    and "getTransformMat self (shape2 (cvtColor_BGR2RGB ori_img)) True = Inr (mat, mat_inv)"
    and "imdecode_gray lb (ref_mask r) = Some mk"
    and "py_index (sents r) idx = Inr sent"
    and "tokenize (tok lb) (Str sent) (word_length self) True = Inr [row]"
    and "convert self (warpAffine lb (cvtColor_BGR2RGB ori_img) mat (input_size self)
                         INTER_CUBIC border_value)
           (Some (div255 (warpAffine_gray lb mk mat (input_size self) INTER_LINEAR 0)))
           = Inr (t, m)"
  shows "RefDataset_sample lb self r ori_img idx = Inr (Train t row m)"
  using assms by (simp add: RefDataset_sample_def Let_def)

text \<open>
  C8: in the store-backed dataset one sentence index is used per access. In train mode it is
  the value that \<^verbatim>\<open>np.random.choice(num_sents)\<close> returns: for a record with a positive
  \<open>num_sents\<close> it lies in the range from 0 up to, and not including, \<open>num_sents\<close>, and every
  index of that range is returned for equally many draws (among the first \<open>c * num_sents\<close>
  draws, exactly \<open>c\<close> give a chosen index). In every other mode the index is 0. Let the store
  open with its two reserved entries, or be open already, and let the record be found and its
  image be decoded. In val mode, when the transform, the tokenization of the first sentence and
  the conversion succeed, the call returns the val sample whose text tensor is the tokenization
  of the first sentence, with the parameters of the record. In train mode, when the mask is
  decoded as well and the steps succeed, it returns the train sample whose text tensor is the
  tokenization of the sentence at the drawn index. So a second access to the same index in val
  mode returns what the first returned, whatever the two draws; in train mode two samples
  returned for the same index have the same image tensor and the same mask tensor, and their
  text tensors can differ, as they do on the toy store for the draws 0 and 1.
\<close>

theorem repeated_access:
  "((env self = None \<longrightarrow>
       (\<exists>st n ks. lmdb_open lb (lmdb_dir self) = Some st \<and> len_entry st = Some n
                  \<and> keys_entry st = Some ks)) \<longrightarrow>
     (mode self = ''val'' \<longrightarrow>
        fst (RefDataset_getitem lb (snd (RefDataset_getitem lb self index d1)) index d2)
          = fst (RefDataset_getitem lb self index d1))
     \<and> (mode self = ''train'' \<longrightarrow>
          (\<forall>i1 w1 m1 i2 w2 m2.
             fst (RefDataset_getitem lb self index d1) = Inr (Train i1 w1 m1)
             \<and> fst (RefDataset_getitem lb (snd (RefDataset_getitem lb self index d1)) index d2)
                 = Inr (Train i2 w2 m2)
             \<longrightarrow> i1 = i2 \<and> m1 = m2)))
   \<and> ((env self = Some st \<and> keys self = Some ks
         \<or> env self = None \<and> lmdb_open lb (lmdb_dir self) = Some st
            \<and> len_entry st = Some n \<and> keys_entry st = Some ks)
        \<and> py_index ks index = Inr k
        \<and> records st k = Some r \<and> imdecode_color lb (ref_img r) = Some ori_img
        \<and> 0 < num_sents r \<longrightarrow>
        np_random_choice (num_sents r) d1 = Inr (int d1 mod num_sents r)
        \<and> 0 \<le> int d1 mod num_sents r \<and> int d1 mod num_sents r < num_sents r
        \<and> (mode self = ''train'' \<longrightarrow>
             fst (RefDataset_getitem lb self index d1)
               = RefDataset_sample lb self r ori_img (int d1 mod num_sents r)
             \<and> (\<forall>i w m. fst (RefDataset_getitem lb self index d1) = Inr (Train i w m) \<longrightarrow>
                   (\<exists>sent. py_index (sents r) (int d1 mod num_sents r) = Inr sent
                      \<and> tokenize (tok lb) (Str sent) (word_length self) True = Inr [w])))
        \<and> (mode self \<noteq> ''train'' \<longrightarrow>
             fst (RefDataset_getitem lb self index d1) = RefDataset_sample lb self r ori_img 0)
        \<and> (mode self = ''val'' \<longrightarrow>
             (\<forall>i w p. fst (RefDataset_getitem lb self index d1) = Inr (Val i w p) \<longrightarrow>
                 (\<exists>sent. py_index (sents r) 0 = Inr sent
                    \<and> tokenize (tok lb) (Str sent) (word_length self) True = Inr [w]))))
   \<and> ((env self = Some st \<and> keys self = Some ks
         \<or> env self = None \<and> lmdb_open lb (lmdb_dir self) = Some st
            \<and> len_entry st = Some n \<and> keys_entry st = Some ks)
        \<and> py_index ks index = Inr k
        \<and> records st k = Some r \<and> imdecode_color lb (ref_img r) = Some ori_img
        \<and> 0 < num_sents r
        \<and> mode self = ''val''
        \<and> getTransformMat self (shape2 (cvtColor_BGR2RGB ori_img)) True = Inr (mat, mat_inv)
        \<and> py_index (sents r) 0 = Inr sent
        \<and> tokenize (tok lb) (Str sent) (word_length self) True = Inr [row]
        \<and> convert self (warpAffine lb (cvtColor_BGR2RGB ori_img) mat (input_size self)
                          INTER_CUBIC border_value) None = Inr (t, m) \<longrightarrow>
        fst (RefDataset_getitem lb self index d1) =
          Inr (Val t row
                 \<lparr>mask_path_p = path_join (mask_dir self) (str_int (seg_id r) @ ''.png''),
                  inverse_p = mat_inv,
                  ori_size_p = shape2 (cvtColor_BGR2RGB ori_img)\<rparr>))
   \<and> ((env self = Some st \<and> keys self = Some ks
         \<or> env self = None \<and> lmdb_open lb (lmdb_dir self) = Some st
            \<and> len_entry st = Some n \<and> keys_entry st = Some ks)
        \<and> py_index ks index = Inr k
        \<and> records st k = Some r \<and> imdecode_color lb (ref_img r) = Some ori_img
        \<and> 0 < num_sents r
        \<and> mode self = ''train''
        \<and> getTransformMat self (shape2 (cvtColor_BGR2RGB ori_img)) True = Inr (mat, mat_inv)
        \<and> imdecode_gray lb (ref_mask r) = Some mk
        \<and> py_index (sents r) (int d1 mod num_sents r) = Inr sent
        \<and> tokenize (tok lb) (Str sent) (word_length self) True = Inr [row]
        \<and> convert self (warpAffine lb (cvtColor_BGR2RGB ori_img) mat (input_size self)
                          INTER_CUBIC border_value)
             (Some (div255 (warpAffine_gray lb mk mat (input_size self) INTER_LINEAR 0)))
             = Inr (t, m) \<longrightarrow>
        fst (RefDataset_getitem lb self index d1) = Inr (Train t row m))
   \<and> (\<exists>i m w1 w2. w1 \<noteq> w2
        \<and> fst (RefDataset_getitem toy_libs (toy_ref_dataset ''train'') 0 0) = Inr (Train i w1 m)
        \<and> fst (RefDataset_getitem toy_libs (toy_ref_dataset ''train'') 0 1) = Inr (Train i w2 m))
   \<and> (0 < cnt \<and> 0 \<le> j \<and> j < cnt \<longrightarrow>
        card {d. d < c * nat cnt \<and> np_random_choice cnt d = Inr j} = c)"
  (is "?P1 \<and> ?P2 \<and> ?P3 \<and> ?P4 \<and> ?P5 \<and> ?P6")
proof -
  have p1: ?P1
  proof (intro impI conjI allI)
    assume a: "env self = None \<longrightarrow>
       (\<exists>st n ks. lmdb_open lb (lmdb_dir self) = Some st \<and> len_entry st = Some n
                  \<and> keys_entry st = Some ks)"
      and "mode self = ''val''"
    then have "mode self \<noteq> ''train''" by simp
    then show "fst (RefDataset_getitem lb (snd (RefDataset_getitem lb self index d1)) index d2)
          = fst (RefDataset_getitem lb self index d1)"
      by (rule second_access_val [OF a])
  next
    fix i1 w1 m1 i2 w2 m2
    assume a: "env self = None \<longrightarrow>
       (\<exists>st n ks. lmdb_open lb (lmdb_dir self) = Some st \<and> len_entry st = Some n
                  \<and> keys_entry st = Some ks)"
      and t: "mode self = ''train''"
      and b: "fst (RefDataset_getitem lb self index d1) = Inr (Train i1 w1 m1)
             \<and> fst (RefDataset_getitem lb (snd (RefDataset_getitem lb self index d1)) index d2)
                 = Inr (Train i2 w2 m2)"
    have r: "i1 = i2 \<and> m1 = m2"
      using second_access_train [OF a t] b by blast
    show "i1 = i2" using r by simp
    show "m1 = m2" using r by simp
  qed
  have p2: ?P2
  proof (intro impI)
    assume f: "(env self = Some st \<and> keys self = Some ks
         \<or> env self = None \<and> lmdb_open lb (lmdb_dir self) = Some st
            \<and> len_entry st = Some n \<and> keys_entry st = Some ks)
        \<and> py_index ks index = Inr k
        \<and> records st k = Some r \<and> imdecode_color lb (ref_img r) = Some ori_img
        \<and> 0 < num_sents r"
    then have pos: "0 < num_sents r" by simp
    have g: "fst (RefDataset_getitem lb self index d1)
             = RefDataset_sample lb self r ori_img (int d1 mod num_sents r)"
      using f by (intro getitem_found_any [of self st ks lb n index k r ori_img d1]) blast+
    have c0: "np_random_choice (num_sents r) d1 = Inr (int d1 mod num_sents r)
        \<and> 0 \<le> int d1 mod num_sents r \<and> int d1 mod num_sents r < num_sents r"
      by (rule np_random_choice_range [OF pos])
    have c1: "mode self = ''train'' \<longrightarrow>
             fst (RefDataset_getitem lb self index d1)
               = RefDataset_sample lb self r ori_img (int d1 mod num_sents r)
             \<and> (\<forall>i w m. fst (RefDataset_getitem lb self index d1) = Inr (Train i w m) \<longrightarrow>
                   (\<exists>sent. py_index (sents r) (int d1 mod num_sents r) = Inr sent
                      \<and> tokenize (tok lb) (Str sent) (word_length self) True = Inr [w]))"
      unfolding g
      using sample_train_sentence [of self lb r ori_img "int d1 mod num_sents r"] by blast
    have c2: "mode self \<noteq> ''train'' \<longrightarrow>
             fst (RefDataset_getitem lb self index d1) = RefDataset_sample lb self r ori_img 0"
      unfolding g
      using sample_other_any_idx [of self lb r ori_img "int d1 mod num_sents r"] by blast
    have c3: "mode self = ''val'' \<longrightarrow>
             (\<forall>i w p. fst (RefDataset_getitem lb self index d1) = Inr (Val i w p) \<longrightarrow>
                 (\<exists>sent. py_index (sents r) 0 = Inr sent
                    \<and> tokenize (tok lb) (Str sent) (word_length self) True = Inr [w]))"
      unfolding g
      using sample_val_sentence [of self lb r ori_img "int d1 mod num_sents r"] by blast
    show "np_random_choice (num_sents r) d1 = Inr (int d1 mod num_sents r)
        \<and> 0 \<le> int d1 mod num_sents r \<and> int d1 mod num_sents r < num_sents r
        \<and> (mode self = ''train'' \<longrightarrow>
             fst (RefDataset_getitem lb self index d1)
               = RefDataset_sample lb self r ori_img (int d1 mod num_sents r)
             \<and> (\<forall>i w m. fst (RefDataset_getitem lb self index d1) = Inr (Train i w m) \<longrightarrow>
                   (\<exists>sent. py_index (sents r) (int d1 mod num_sents r) = Inr sent
                      \<and> tokenize (tok lb) (Str sent) (word_length self) True = Inr [w])))
        \<and> (mode self \<noteq> ''train'' \<longrightarrow>
             fst (RefDataset_getitem lb self index d1) = RefDataset_sample lb self r ori_img 0)
        \<and> (mode self = ''val'' \<longrightarrow>
             (\<forall>i w p. fst (RefDataset_getitem lb self index d1) = Inr (Val i w p) \<longrightarrow>
                 (\<exists>sent. py_index (sents r) 0 = Inr sent
                    \<and> tokenize (tok lb) (Str sent) (word_length self) True = Inr [w])))"
      using c0 c1 c2 c3 by (intro conjI) blast+
  qed
  have p3: ?P3
  proof (intro impI)
    assume f: "(env self = Some st \<and> keys self = Some ks
         \<or> env self = None \<and> lmdb_open lb (lmdb_dir self) = Some st
            \<and> len_entry st = Some n \<and> keys_entry st = Some ks)
        \<and> py_index ks index = Inr k
        \<and> records st k = Some r \<and> imdecode_color lb (ref_img r) = Some ori_img
        \<and> 0 < num_sents r
        \<and> mode self = ''val''
        \<and> getTransformMat self (shape2 (cvtColor_BGR2RGB ori_img)) True = Inr (mat, mat_inv)
        \<and> py_index (sents r) 0 = Inr sent
        \<and> tokenize (tok lb) (Str sent) (word_length self) True = Inr [row]
        \<and> convert self (warpAffine lb (cvtColor_BGR2RGB ori_img) mat (input_size self)
                          INTER_CUBIC border_value) None = Inr (t, m)"
    have g: "fst (RefDataset_getitem lb self index d1)
             = RefDataset_sample lb self r ori_img (int d1 mod num_sents r)"
      using f by (intro getitem_found_any [of self st ks lb n index k r ori_img d1]) blast+
    show "fst (RefDataset_getitem lb self index d1) =
          Inr (Val t row
                 \<lparr>mask_path_p = path_join (mask_dir self) (str_int (seg_id r) @ ''.png''),
                  inverse_p = mat_inv,
                  ori_size_p = shape2 (cvtColor_BGR2RGB ori_img)\<rparr>)"
    proof -
      have hs: "mode self = ''val''"
        "getTransformMat self (shape2 (cvtColor_BGR2RGB ori_img)) True = Inr (mat, mat_inv)"
        "py_index (sents r) 0 = Inr sent"
        "tokenize (tok lb) (Str sent) (word_length self) True = Inr [row]"
        "convert self (warpAffine lb (cvtColor_BGR2RGB ori_img) mat (input_size self)
                          INTER_CUBIC border_value) None = Inr (t, m)"
        using f by blast+
      show ?thesis unfolding g by (rule sample_val [OF hs])
    qed
  qed
  have p4: ?P4
  proof (intro impI)
    assume f: "(env self = Some st \<and> keys self = Some ks
         \<or> env self = None \<and> lmdb_open lb (lmdb_dir self) = Some st
            \<and> len_entry st = Some n \<and> keys_entry st = Some ks)
        \<and> py_index ks index = Inr k
        \<and> records st k = Some r \<and> imdecode_color lb (ref_img r) = Some ori_img
        \<and> 0 < num_sents r
        \<and> mode self = ''train''
        \<and> getTransformMat self (shape2 (cvtColor_BGR2RGB ori_img)) True = Inr (mat, mat_inv)
        \<and> imdecode_gray lb (ref_mask r) = Some mk
        \<and> py_index (sents r) (int d1 mod num_sents r) = Inr sent
        \<and> tokenize (tok lb) (Str sent) (word_length self) True = Inr [row]
        \<and> convert self (warpAffine lb (cvtColor_BGR2RGB ori_img) mat (input_size self)
                          INTER_CUBIC border_value)
             (Some (div255 (warpAffine_gray lb mk mat (input_size self) INTER_LINEAR 0)))
             = Inr (t, m)"
    have g: "fst (RefDataset_getitem lb self index d1)
             = RefDataset_sample lb self r ori_img (int d1 mod num_sents r)"
      using f by (intro getitem_found_any [of self st ks lb n index k r ori_img d1]) blast+
    show "fst (RefDataset_getitem lb self index d1) = Inr (Train t row m)"
    proof -
      have hs: "mode self = ''train''"
        "getTransformMat self (shape2 (cvtColor_BGR2RGB ori_img)) True = Inr (mat, mat_inv)"
        "imdecode_gray lb (ref_mask r) = Some mk"
        "py_index (sents r) (int d1 mod num_sents r) = Inr sent"
        "tokenize (tok lb) (Str sent) (word_length self) True = Inr [row]"
        "convert self (warpAffine lb (cvtColor_BGR2RGB ori_img) mat (input_size self)
                          INTER_CUBIC border_value)
             (Some (div255 (warpAffine_gray lb mk mat (input_size self) INTER_LINEAR 0)))
             = Inr (t, m)"
        using f by blast+
      show ?thesis unfolding g by (rule sample_train [OF hs])
    qed
  qed
  have p5: ?P5
  proof -
    obtain i m where
      g: "RefDataset_getitem toy_libs (toy_ref_dataset ''train'') 0 0
            = (Inr (Train i [49406, 97, 98, 49407] m), toy_ref_dataset ''train'')"
         "RefDataset_getitem toy_libs (toy_ref_dataset ''train'') 0 1
            = (Inr (Train i [49406, 99, 49407, 0] m), toy_ref_dataset ''train'')"
      using toy_train_sample by blast
    have n: "[49406, 97, 98, 49407] \<noteq> [49406, 99, 49407, 0::int]" by simp
    have a: "fst (RefDataset_getitem toy_libs (toy_ref_dataset ''train'') 0 0)
            = Inr (Train i [49406, 97, 98, 49407] m)" by (simp only: g(1) fst_conv)
    have b: "fst (RefDataset_getitem toy_libs (toy_ref_dataset ''train'') 0 1)
            = Inr (Train i [49406, 99, 49407, 0] m)" by (simp only: g(2) fst_conv)
    show ?thesis
      by (rule exI [of _ i], rule exI [of _ m], rule exI [of _ "[49406, 97, 98, 49407]"],
          rule exI [of _ "[49406, 99, 49407, 0]"]) (rule conjI [OF n conjI [OF a b]])
  qed
  have p6: ?P6
    using np_random_choice_uniform [of cnt j c] by blast
  show ?thesis by (rule conjI [OF p1 conjI [OF p2 conjI [OF p3 conjI [OF p4 conjI [OF p5 p6]]]]])
qed

theorem repeated_access_witness:
  "env ((toy_ref_dataset ''val'')\<lparr>len := 3811, env := None, keys := None, opens := 0\<rparr>) = None
   \<and> lmdb_open toy_libs
         (lmdb_dir ((toy_ref_dataset ''val'')\<lparr>len := 3811, env := None, keys := None,
                                            opens := 0\<rparr>)) = Some toy_store
   \<and> len_entry toy_store = Some 1 \<and> keys_entry toy_store = Some [''k0'']
   \<and> mode ((toy_ref_dataset ''val'')\<lparr>len := 3811, env := None, keys := None, opens := 0\<rparr>)
        = ''val''
   \<and> fst (RefDataset_getitem toy_libs
             (snd (RefDataset_getitem toy_libs
                     ((toy_ref_dataset ''val'')\<lparr>len := 3811, env := None, keys := None,
                                                opens := 0\<rparr>) 0 0)) 0 1)
       = fst (RefDataset_getitem toy_libs
                ((toy_ref_dataset ''val'')\<lparr>len := 3811, env := None, keys := None,
                                           opens := 0\<rparr>) 0 0)
   \<and> py_index [''k0''] 0 = Inr ''k0''
   \<and> records toy_store ''k0'' = Some toy_ref
   \<and> imdecode_color toy_libs (ref_img toy_ref) = Some toy_image
   \<and> 0 < num_sents toy_ref
   \<and> py_index (sents toy_ref) 0 = Inr ''ab''
   \<and> tokenize (tok toy_libs) (Str ''ab'') 4 True = Inr [[49406, 97, 98, 49407]]
   \<and> (\<exists>t. convert ((toy_ref_dataset ''val'')\<lparr>len := 3811, env := None, keys := None,
                                               opens := 0\<rparr>)
              (warpAffine toy_libs (cvtColor_BGR2RGB toy_image) ((25, 0, 0), (0, 25, 25 / 2))
                 (50, 50) INTER_CUBIC border_value) None = Inr (t, None)
          \<and> fst (RefDataset_getitem toy_libs
                    ((toy_ref_dataset ''val'')\<lparr>len := 3811, env := None, keys := None,
                                               opens := 0\<rparr>) 0 5)
              = Inr (Val t [49406, 97, 98, 49407]
                       \<lparr>mask_path_p = ''masks/7.png'',
                        inverse_p = Some ((1 / 25, 0, 0), (0, 1 / 25, - 1 / 2)),
                        ori_size_p = (1, 2)\<rparr>))
   \<and> env (toy_ref_dataset ''train'') = Some toy_store
   \<and> keys (toy_ref_dataset ''train'') = Some [''k0'']
   \<and> mode (toy_ref_dataset ''train'') = ''train''
   \<and> np_random_choice (num_sents toy_ref) 5 = Inr 1
   \<and> fst (RefDataset_getitem toy_libs (toy_ref_dataset ''train'') 0 5)
       = RefDataset_sample toy_libs (toy_ref_dataset ''train'') toy_ref toy_image 1
   \<and> imdecode_gray toy_libs (ref_mask toy_ref) = Some toy_plane
   \<and> py_index (sents toy_ref) 1 = Inr ''c''
   \<and> tokenize (tok toy_libs) (Str ''c'') 4 True = Inr [[49406, 99, 49407, 0]]
   \<and> (\<exists>t m. convert (toy_ref_dataset ''train'')
                (warpAffine toy_libs (cvtColor_BGR2RGB toy_image) ((25, 0, 0), (0, 25, 25 / 2))
                   (50, 50) INTER_CUBIC border_value)
                (Some (div255 (warpAffine_gray toy_libs toy_plane ((25, 0, 0), (0, 25, 25 / 2))
                                 (50, 50) INTER_LINEAR 0))) = Inr (t, m)
            \<and> fst (RefDataset_getitem toy_libs (toy_ref_dataset ''train'') 0 5)
                = Inr (Train t [49406, 99, 49407, 0] m))
   \<and> card {d. d < 3 * nat 2 \<and> np_random_choice 2 d = Inr 1} = 3"
proof -
  let ?F = "(toy_ref_dataset ''val'')\<lparr>len := 3811, env := None, keys := None, opens := 0\<rparr>"
  let ?T = "toy_ref_dataset ''train''"
  let ?M = "((25, 0, 0), (0, 25, 25 / 2)) :: mat"
  let ?MI = "((1 / 25, 0, 0), (0, 1 / 25, - 1 / 2)) :: mat"
  have h1: "env ?F = None \<longrightarrow> (\<exists>st n ks. lmdb_open toy_libs (lmdb_dir ?F) = Some st
             \<and> len_entry st = Some n \<and> keys_entry st = Some ks)"
    by (simp add: toy_ref_dataset_def toy_libs_def toy_store_def)
  have h2: "mode ?F = ''val''" by (simp add: toy_ref_dataset_def)
  have o: "env ?F = None" "lmdb_open toy_libs (lmdb_dir ?F) = Some toy_store"
      "len_entry toy_store = Some 1" "keys_entry toy_store = Some [''k0'']"
    by (simp_all add: toy_ref_dataset_def toy_libs_def toy_store_def)
  have c1: "fst (RefDataset_getitem toy_libs (snd (RefDataset_getitem toy_libs ?F 0 0)) 0 1)
       = fst (RefDataset_getitem toy_libs ?F 0 0)"
    by (rule repeated_access [where self = ?F and lb = toy_libs and index = 0 and ?d1.0 = 0
                                and ?d2.0 = 1,
                              THEN conjunct1, THEN mp, OF h1, THEN conjunct1, THEN mp, OF h2])
  have f: "env ?T = Some toy_store" "keys ?T = Some [''k0'']" "py_index [''k0''] 0 = Inr ''k0''"
      "records toy_store ''k0'' = Some toy_ref"
      "imdecode_color toy_libs (ref_img toy_ref) = Some toy_image" "0 < num_sents toy_ref"
    by (simp_all add: toy_ref_dataset_def py_index_def toy_store_def toy_libs_def toy_ref_def)
  have t: "mode ?T = ''train''" by (simp add: toy_ref_dataset_def)
  have ns: "num_sents toy_ref = 2" "sents toy_ref = [''ab'', ''c'']" "seg_id toy_ref = 7"
    by (simp_all add: toy_ref_def)
  have sh: "shape2 (cvtColor_BGR2RGB toy_image) = (1, 2)"
    by (simp add: shape2_def cvtColor_BGR2RGB_def toy_image_def)
  have i5: "int 5 mod num_sents toy_ref = 1" by (simp add: ns)
  have s0: "py_index (sents toy_ref) 0 = Inr ''ab''" "py_index (sents toy_ref) 1 = Inr ''c''"
    by (simp_all add: ns py_index_def)
  have tk: "tokenize (tok toy_libs) (Str ''ab'') 4 True = Inr [[49406, 97, 98, 49407]]"
       "tokenize (tok toy_libs) (Str ''c'') 4 True = Inr [[49406, 99, 49407, 0]]"
    by (simp_all add: toy_libs_def tokenize_def tokenize_one_def char_tokenizer_def)
  have w: "warpAffine toy_libs (cvtColor_BGR2RGB toy_image) ?M (50, 50) INTER_CUBIC border_value
             = cvtColor_BGR2RGB toy_image"
     "warpAffine_gray toy_libs toy_plane ?M (50, 50) INTER_LINEAR 0 = toy_plane"
    by (simp_all add: toy_libs_def)
  have fl: "input_size ?F = (50, 50)" "word_length ?F = 4" "mask_dir ?F = ''masks''"
      "input_size ?T = (50, 50)" "word_length ?T = 4"
    by (simp_all add: toy_ref_dataset_def)
  have mg: "imdecode_gray toy_libs (ref_mask toy_ref) = Some toy_plane"
    by (simp add: toy_libs_def toy_ref_def)
  have ffT: "(env ?T = Some toy_store \<and> keys ?T = Some [''k0'']
         \<or> env ?T = None \<and> lmdb_open toy_libs (lmdb_dir ?T) = Some toy_store
            \<and> len_entry toy_store = Some 1 \<and> keys_entry toy_store = Some [''k0''])
      \<and> py_index [''k0''] 0 = Inr ''k0''
      \<and> records toy_store ''k0'' = Some toy_ref
      \<and> imdecode_color toy_libs (ref_img toy_ref) = Some toy_image \<and> 0 < num_sents toy_ref"
    using f by blast
  note q2 = repeated_access [where self = ?T and lb = toy_libs and index = 0 and ?d1.0 = 5
                                and st = toy_store and ks = "[''k0'']" and k = "''k0''"
                                and r = toy_ref and ori_img = toy_image and n = 1,
                              THEN conjunct2, THEN conjunct1, THEN mp, OF ffT]
  have r1: "np_random_choice (num_sents toy_ref) 5 = Inr 1"
    using q2 [THEN conjunct1] unfolding i5 .
  have r2: "fst (RefDataset_getitem toy_libs ?T 0 5)
              = RefDataset_sample toy_libs ?T toy_ref toy_image 1"
    using q2 [THEN conjunct2, THEN conjunct2, THEN conjunct2, THEN conjunct1, THEN mp, OF t,
              THEN conjunct1]
    unfolding i5 .
  have gF: "getTransformMat ?F (shape2 (cvtColor_BGR2RGB toy_image)) True = Inr (?M, Some ?MI)"
    unfolding sh using getTransformMat_closed [of 1 2 50 ?F True]
    by (simp add: toy_ref_dataset_def)
  obtain tv where cv: "convert ?F (warpAffine toy_libs (cvtColor_BGR2RGB toy_image) ?M (50, 50)
                                     INTER_CUBIC border_value) None = Inr (tv, None)"
    unfolding w
    using convert_closed [of "cvtColor_BGR2RGB toy_image" ?F None]
    by (simp add: channels_def cvtColor_BGR2RGB_def toy_image_def toy_ref_dataset_def
          clip_mean_def clip_std_def)
  have ffF: "(env ?F = Some toy_store \<and> keys ?F = Some [''k0'']
         \<or> env ?F = None \<and> lmdb_open toy_libs (lmdb_dir ?F) = Some toy_store
            \<and> len_entry toy_store = Some 1 \<and> keys_entry toy_store = Some [''k0''])
      \<and> py_index [''k0''] 0 = Inr ''k0''
      \<and> records toy_store ''k0'' = Some toy_ref
      \<and> imdecode_color toy_libs (ref_img toy_ref) = Some toy_image \<and> 0 < num_sents toy_ref
      \<and> mode ?F = ''val''
      \<and> getTransformMat ?F (shape2 (cvtColor_BGR2RGB toy_image)) True = Inr (?M, Some ?MI)
      \<and> py_index (sents toy_ref) 0 = Inr ''ab''
      \<and> tokenize (tok toy_libs) (Str ''ab'') (word_length ?F) True = Inr [[49406, 97, 98, 49407]]
      \<and> convert ?F (warpAffine toy_libs (cvtColor_BGR2RGB toy_image) ?M (input_size ?F)
                       INTER_CUBIC border_value) None = Inr (tv, None)"
    unfolding fl using o f(3-6) h2 gF s0(1) tk(1) cv by blast
  have pm: "path_join ''masks'' (str_int 7 @ ''.png'') = ''masks/7.png''"
    by (simp add: path_join_def str_int_def digits.simps)
  have r3: "fst (RefDataset_getitem toy_libs ?F 0 5)
              = Inr (Val tv [49406, 97, 98, 49407]
                       \<lparr>mask_path_p = ''masks/7.png'', inverse_p = Some ?MI,
                        ori_size_p = (1, 2)\<rparr>)"
    using repeated_access [where self = ?F and lb = toy_libs and index = 0 and ?d1.0 = 5
                                and st = toy_store and ks = "[''k0'']" and k = "''k0''"
                                and r = toy_ref and ori_img = toy_image and n = 1
                                and mat = ?M and mat_inv = "Some ?MI" and sent = "''ab''"
                                and row = "[49406, 97, 98, 49407]" and t = tv and m = None,
                              THEN conjunct2, THEN conjunct2, THEN conjunct1, THEN mp, OF ffF]
    unfolding fl ns sh pm .
  have e3: "\<exists>t. convert ?F (warpAffine toy_libs (cvtColor_BGR2RGB toy_image) ?M (50, 50)
                                INTER_CUBIC border_value) None = Inr (t, None)
          \<and> fst (RefDataset_getitem toy_libs ?F 0 5)
              = Inr (Val t [49406, 97, 98, 49407]
                       \<lparr>mask_path_p = ''masks/7.png'', inverse_p = Some ?MI,
                        ori_size_p = (1, 2)\<rparr>)"
    by (rule exI [of _ tv]) (rule conjI [OF cv r3])
  have gT: "getTransformMat ?T (shape2 (cvtColor_BGR2RGB toy_image)) True = Inr (?M, Some ?MI)"
    unfolding sh by (rule toy_transform)
  obtain tt mt where ct: "convert ?T (warpAffine toy_libs (cvtColor_BGR2RGB toy_image) ?M (50, 50)
                                        INTER_CUBIC border_value)
                (Some (div255 (warpAffine_gray toy_libs toy_plane ?M (50, 50) INTER_LINEAR 0)))
              = Inr (tt, mt)"
    unfolding w using toy_convert [of "''train''" "Some (div255 toy_plane)"] by blast
  have ffT4: "(env ?T = Some toy_store \<and> keys ?T = Some [''k0'']
         \<or> env ?T = None \<and> lmdb_open toy_libs (lmdb_dir ?T) = Some toy_store
            \<and> len_entry toy_store = Some 1 \<and> keys_entry toy_store = Some [''k0''])
      \<and> py_index [''k0''] 0 = Inr ''k0''
      \<and> records toy_store ''k0'' = Some toy_ref
      \<and> imdecode_color toy_libs (ref_img toy_ref) = Some toy_image \<and> 0 < num_sents toy_ref
      \<and> mode ?T = ''train''
      \<and> getTransformMat ?T (shape2 (cvtColor_BGR2RGB toy_image)) True = Inr (?M, Some ?MI)
      \<and> imdecode_gray toy_libs (ref_mask toy_ref) = Some toy_plane
      \<and> py_index (sents toy_ref) (int 5 mod num_sents toy_ref) = Inr ''c''
      \<and> tokenize (tok toy_libs) (Str ''c'') (word_length ?T) True = Inr [[49406, 99, 49407, 0]]
      \<and> convert ?T (warpAffine toy_libs (cvtColor_BGR2RGB toy_image) ?M (input_size ?T)
                       INTER_CUBIC border_value)
           (Some (div255 (warpAffine_gray toy_libs toy_plane ?M (input_size ?T) INTER_LINEAR 0)))
           = Inr (tt, mt)"
    unfolding fl i5 using f t gT mg s0(2) tk(2) ct by blast
  have r4: "fst (RefDataset_getitem toy_libs ?T 0 5) = Inr (Train tt [49406, 99, 49407, 0] mt)"
    by (rule repeated_access [where self = ?T and lb = toy_libs and index = 0 and ?d1.0 = 5
                                and st = toy_store and ks = "[''k0'']" and k = "''k0''"
                                and r = toy_ref and ori_img = toy_image and n = 1
                                and mat = ?M and mat_inv = "Some ?MI" and mk = toy_plane
                                and sent = "''c''"
                                and row = "[49406, 99, 49407, 0]" and t = tt and m = mt,
                              THEN conjunct2, THEN conjunct2, THEN conjunct2, THEN conjunct1,
                              THEN mp, OF ffT4])
  have e4: "\<exists>t m. convert ?T (warpAffine toy_libs (cvtColor_BGR2RGB toy_image) ?M (50, 50)
                                  INTER_CUBIC border_value)
                (Some (div255 (warpAffine_gray toy_libs toy_plane ?M (50, 50) INTER_LINEAR 0)))
              = Inr (t, m)
            \<and> fst (RefDataset_getitem toy_libs ?T 0 5) = Inr (Train t [49406, 99, 49407, 0] m)"
    by (rule exI [of _ tt], rule exI [of _ mt]) (rule conjI [OF ct r4])
  have u: "(0::int) < 2 \<and> (0::int) \<le> 1 \<and> (1::int) < 2" by simp
  have r6: "card {d. d < 3 * nat 2 \<and> np_random_choice 2 d = Inr 1} = 3"
    by (rule repeated_access [where cnt = 2 and j = 1 and c = 3,
                              THEN conjunct2, THEN conjunct2, THEN conjunct2, THEN conjunct2,
                              THEN conjunct2, THEN mp, OF u])
  show ?thesis
    by (intro conjI) (rule o h2 c1 f s0 tk e3 t r1 r2 mg e4 r6)+
qed







section \<open>Results on the manifest-backed dataset\<close>

lemma endo_found:
  assumes "py_index (data self) index = Inr r"
    "imread_color lb (path_join (data_root self) (img_path r)) = Some ori_img"
  shows "EndoVisDataset_getitem lb self index draw aug =
           bindE (select_sentence (sents_select_type self) (num_sents r) draw)
             (\<lambda>idx. EndoVisDataset_sample lb self r ori_img idx aug)"
  using assms by (simp add: EndoVisDataset_getitem_def)

lemma endo_sample_other_any:
  assumes "mode self \<noteq> ''train''"
  shows "EndoVisDataset_sample lb self r ori_img idx aug
           = EndoVisDataset_sample lb self r ori_img 0 0"
  using assms by (simp add: EndoVisDataset_sample_def Let_def)

lemma endo_sample_train_sentence:
  assumes "mode self = ''train''"
    and "EndoVisDataset_sample lb self r ori_img idx aug = Inr (Train i w m)"
  shows "\<exists>sent. py_index (sents r) idx = Inr sent
           \<and> tokenize (tok lb) (Str sent) (word_length self) True = Inr [w]"
  using assms
  by (auto simp: EndoVisDataset_sample_def Let_def bindE_def
           split: sum.splits option.splits prod.splits if_splits dest!: tokenize_Str_single)

lemma endo_sample_val:
  assumes "mode self = ''val''"
    and "EndoVisDataset_sample lb self r ori_img idx aug = Inr s"
  shows "\<exists>i w p sent. s = Val i w p \<and> py_index (sents r) 0 = Inr sent
           \<and> tokenize (tok lb) (Str sent) (word_length self) True = Inr [w]"
  using assms
  by (auto simp: EndoVisDataset_sample_def Let_def bindE_def
           split: sum.splits option.splits prod.splits dest!: tokenize_Str_single)

lemma getTransformMat_policy:
  "getTransformMat (self\<lparr>sents_select_type := p\<rparr>) sz w = getTransformMat self sz w"
  by (cases sz) (simp add: getTransformMat_def)

lemma convert_policy:
  "convert (self\<lparr>sents_select_type := p\<rparr>) i m = convert self i m"
  by (simp add: convert_def)

lemma endo_sample_policy:
  "EndoVisDataset_sample lb (self\<lparr>sents_select_type := p\<rparr>) r ori_img idx aug
     = EndoVisDataset_sample lb self r ori_img idx aug"
  by (simp add: EndoVisDataset_sample_def getTransformMat_policy convert_policy split_def Let_def
           cong: option.case_cong if_cong)

lemma endo_unsupported_policy:
  assumes "sents_select_type self \<noteq> ''random'' \<and> sents_select_type self \<noteq> ''first''"
  shows "\<exists>e. EndoVisDataset_getitem lb self index draw aug = Inl e"
  using assms
  by (auto simp: EndoVisDataset_getitem_def bindE_def select_sentence_def
           split: sum.splits option.splits)

lemma toy_endo_transform:
  "getTransformMat (toy_endovis md p) (1, 2) True
     = Inr (((25, 0, 0), (0, 25, 25 / 2)), Some ((1 / 25, 0, 0), (0, 1 / 25, - 1 / 2)))"
  using getTransformMat_closed [of 1 2 50 "toy_endovis md p" True]
  by (simp add: toy_endovis_def)

lemma toy_endo_convert:
  "\<exists>t. convert (toy_endovis md p) (cvtColor_BGR2RGB toy_image) msk
          = Inr (t, map_option (\<lambda>m. \<lparr>dtype = Float32, elems = elems m\<rparr>) msk)"
  using convert_closed [of "cvtColor_BGR2RGB toy_image" "toy_endovis md p" msk]
  by (simp add: channels_def cvtColor_BGR2RGB_def toy_image_def toy_endovis_def
        clip_mean_def clip_std_def)

lemma toy_endo_facts:
  "py_index (data (toy_endovis md p)) 0 = Inr toy_entry"
  "imread_color toy_libs (path_join (data_root (toy_endovis md p)) (img_path toy_entry))
     = Some toy_image"
  "sents_select_type (toy_endovis md p) = p"
  "mode (toy_endovis md p) = md"
  "0 < num_sents toy_entry"
  by (simp_all add: toy_endovis_def py_index_def toy_entry_def toy_libs_def path_join_def)

lemma toy_endo_train_sample:
  "\<exists>i m. EndoVisDataset_sample toy_libs (toy_endovis ''train'' p) toy_entry toy_image 0 a
            = Inr (Train i [49406, 97, 98, 49407] m)
         \<and> EndoVisDataset_sample toy_libs (toy_endovis ''train'' p) toy_entry toy_image 1 a
            = Inr (Train i [49406, 99, 49407, 0] m)"
proof -
  let ?ds = "toy_endovis ''train'' p"
  obtain t where c: "convert ?ds (cvtColor_BGR2RGB toy_image) (Some (div255 toy_plane))
          = Inr (t, Some \<lparr>dtype = Float32, elems = elems (div255 toy_plane)\<rparr>)"
    using toy_endo_convert [of "''train''" p "Some (div255 toy_plane)"] by auto
  have sh: "shape2 (cvtColor_BGR2RGB toy_image) = (1, 2)"
    by (simp add: shape2_def cvtColor_BGR2RGB_def toy_image_def)
  have md: "mode ?ds = ''train''" "word_length ?ds = 4" "input_size ?ds = (50, 50)"
      "use_vis_aug ?ds = False" "data_root ?ds = ''root''"
    by (simp_all add: toy_endovis_def)
  have tk: "tokenize char_tokenizer (Str ''ab'') 4 True = Inr [[49406, 97, 98, 49407]]"
       "tokenize char_tokenizer (Str ''c'') 4 True = Inr [[49406, 99, 49407, 0]]"
    by (simp_all add: tokenize_def tokenize_one_def char_tokenizer_def)
  have pj: "path_join ''root'' (mask_path toy_entry) = ''root/m.png''"
    by (simp add: path_join_def toy_entry_def)
  have lb: "tok toy_libs = char_tokenizer" "imread_gray toy_libs ''root/m.png'' = Some toy_plane"
       "warpAffine toy_libs = (\<lambda>img m sz ip bv. img)"
       "warpAffine_gray toy_libs = (\<lambda>msk m sz ip bv. msk)"
    by (simp_all add: toy_libs_def)
  have sn: "sents toy_entry = [''ab'', ''c'']" by (simp add: toy_entry_def)
  have s0: "EndoVisDataset_sample toy_libs ?ds toy_entry toy_image 0 a
              = Inr (Train t [49406, 97, 98, 49407]
                       (Some \<lparr>dtype = Float32, elems = elems (div255 toy_plane)\<rparr>))"
    by (simp add: EndoVisDataset_sample_def Let_def sh toy_endo_transform md pj lb sn
          py_index_def tk c)
  have s1: "EndoVisDataset_sample toy_libs ?ds toy_entry toy_image 1 a
              = Inr (Train t [49406, 99, 49407, 0]
                       (Some \<lparr>dtype = Float32, elems = elems (div255 toy_plane)\<rparr>))"
    by (simp add: EndoVisDataset_sample_def Let_def sh toy_endo_transform md pj lb sn
          py_index_def tk c)
  show ?thesis
    by (rule exI [of _ t],
        rule exI [of _ "Some \<lparr>dtype = Float32, elems = elems (div255 toy_plane)\<rparr>"])
       (rule conjI [OF s0 s1])
qed

lemma toy_endo_val_sample:
  "\<exists>i q. EndoVisDataset_sample toy_libs (toy_endovis ''val'' p) toy_entry toy_image idx a
            = Inr (Val i [49406, 97, 98, 49407] q)"
proof -
  let ?ds = "toy_endovis ''val'' p"
  obtain t where c: "convert ?ds (cvtColor_BGR2RGB toy_image) None = Inr (t, None)"
    using toy_endo_convert [of "''val''" p None] by auto
  have sh: "shape2 (cvtColor_BGR2RGB toy_image) = (1, 2)"
    by (simp add: shape2_def cvtColor_BGR2RGB_def toy_image_def)
  have md: "mode ?ds = ''val''" "word_length ?ds = 4" "input_size ?ds = (50, 50)"
      "data_root ?ds = ''root''"
    by (simp_all add: toy_endovis_def)
  have tk: "tokenize char_tokenizer (Str ''ab'') 4 True = Inr [[49406, 97, 98, 49407]]"
    by (simp_all add: tokenize_def tokenize_one_def char_tokenizer_def)
  have lb: "tok toy_libs = char_tokenizer"
       "warpAffine toy_libs = (\<lambda>img m sz ip bv. img)"
    by (simp_all add: toy_libs_def)
  have sn: "sents toy_entry = [''ab'', ''c'']" by (simp add: toy_entry_def)
  have "EndoVisDataset_sample toy_libs ?ds toy_entry toy_image idx a
          = Inr (Val t [49406, 97, 98, 49407]
                   \<lparr>mask_path_p = path_join ''root'' (mask_path toy_entry),
                    inverse_p = Some ((1 / 25, 0, 0), (0, 1 / 25, - 1 / 2)),
                    ori_size_p = (1, 2)\<rparr>)"
    by (simp add: EndoVisDataset_sample_def Let_def sh toy_endo_transform md lb sn
          py_index_def tk c)
  then show ?thesis by blast
qed

lemma endo_sample_train_ok:
  assumes "mode self = ''train''"
    and "getTransformMat self (shape2 (cvtColor_BGR2RGB ori_img)) True = Inr (mat, mat_inv)"
    and "imread_gray lb (path_join (data_root self) (mask_path r)) = Some mk"
    and "(if use_vis_aug self
          then albumentations lb (fst (input_size self)) aug
                 (warpAffine lb (cvtColor_BGR2RGB ori_img) mat (input_size self)
                    INTER_CUBIC border_value)
                 (div255 (warpAffine_gray lb mk mat (input_size self) INTER_LINEAR 0))
          else (warpAffine lb (cvtColor_BGR2RGB ori_img) mat (input_size self)
                  INTER_CUBIC border_value,
                div255 (warpAffine_gray lb mk mat (input_size self) INTER_LINEAR 0)))
         = (img_a, msk_a)"
    and "py_index (sents r) idx = Inr sent"
    and "tokenize (tok lb) (Str sent) (word_length self) True = Inr [row]"
    and "convert self img_a (Some msk_a) = Inr (t, m)"
  shows "EndoVisDataset_sample lb self r ori_img idx aug = Inr (Train t row m)"
  using assms by (simp add: EndoVisDataset_sample_def Let_def)

lemma endo_sample_val_ok:
  assumes "mode self = ''val''"
    and "getTransformMat self (shape2 (cvtColor_BGR2RGB ori_img)) True = Inr (mat, mat_inv)"
    and "py_index (sents r) 0 = Inr sent"
    and "tokenize (tok lb) (Str sent) (word_length self) True = Inr [row]"
    and "convert self (warpAffine lb (cvtColor_BGR2RGB ori_img) mat (input_size self)
                         INTER_CUBIC border_value) None = Inr (t, m)"
  shows "EndoVisDataset_sample lb self r ori_img idx aug =
           Inr (Val t row
                  \<lparr>mask_path_p = path_join (data_root self) (mask_path r),
                   inverse_p = mat_inv,
                   ori_size_p = shape2 (cvtColor_BGR2RGB ori_img)\<rparr>)"
  using assms by (simp add: EndoVisDataset_sample_def Let_def)

lemma endo_assertion:
  assumes "py_index (data self) index = Inr r"
    and "imread_color lb (path_join (data_root self) (img_path r)) = Some ori_img"
    and "sents_select_type self \<noteq> ''random'' \<and> sents_select_type self \<noteq> ''first''"
  shows "EndoVisDataset_getitem lb self index draw aug
           = Inl (AssertionError (''Not support sents_select_type: '' @ sents_select_type self))"
  using assms(3) by (simp add: endo_found [OF assms(1,2)] select_sentence_def)

lemma select_sentence_random:
  assumes "0 < n"
  shows "select_sentence ''random'' n draw = Inr (int draw mod n)
         \<and> 0 \<le> int draw mod n \<and> int draw mod n < n"
  using np_random_choice_range [OF assms, of draw] by (simp add: select_sentence_def)

lemma select_sentence_uniform:
  assumes "0 < n" "0 \<le> j" "j < n"
  shows "card {d. d < k * nat n \<and> select_sentence ''random'' n d = Inr j} = k"
  using np_random_choice_uniform [OF assms, of k] by (simp add: select_sentence_def)

lemma endo_val_any_draw:
  assumes "mode self = ''val''"
  shows "EndoVisDataset_getitem lb self index d1 a1 = EndoVisDataset_getitem lb self index d2 a2"
proof -
  have m: "mode self \<noteq> ''train''" using assms by simp
  have "bindE (select_sentence p n d1) (\<lambda>idx. EndoVisDataset_sample lb self r ori_img idx a1)
          = bindE (select_sentence p n d2) (\<lambda>idx. EndoVisDataset_sample lb self r ori_img idx a2)"
    for p n r ori_img
    using endo_sample_other_any [OF m, of lb r ori_img]
    by (simp add: select_sentence_def np_random_choice_def) metis
  then show ?thesis
    by (simp add: EndoVisDataset_getitem_def bindE_def split: option.splits sum.splits)
qed

lemma endo_val_policy:
  assumes v: "mode self = ''val''"
    and n: "\<forall>r. py_index (data self) index = Inr r \<longrightarrow> 0 < num_sents r"
  shows "EndoVisDataset_getitem lb (self\<lparr>sents_select_type := ''random''\<rparr>) index d1 a1
           = EndoVisDataset_getitem lb (self\<lparr>sents_select_type := ''first''\<rparr>) index d2 a2"
proof (cases "py_index (data self) index")
  case (Inl e)
  then show ?thesis by (simp add: EndoVisDataset_getitem_def)
next
  case (Inr r)
  then have p: "0 < num_sents r" using n by blast
  have m: "mode self \<noteq> ''train''" using v by simp
  show ?thesis
  proof (cases "imread_color lb (path_join (data_root self) (img_path r))")
    case None
    then show ?thesis using Inr by (simp add: EndoVisDataset_getitem_def)
  next
    case (Some ori_img)
    have "EndoVisDataset_sample lb self r ori_img (int d1 mod num_sents r) a1
            = EndoVisDataset_sample lb self r ori_img 0 a2"
      using endo_sample_other_any [OF m, of lb r ori_img] by metis
    then show ?thesis
      using Inr Some p
      by (simp add: EndoVisDataset_getitem_def select_sentence_def np_random_choice_def
            endo_sample_policy)
  qed
qed

lemma endo_val_result:
  assumes v: "mode self = ''val''"
    and g: "EndoVisDataset_getitem lb self index draw aug = Inr s"
  shows "\<exists>r i w p sent. py_index (data self) index = Inr r \<and> s = Val i w p
           \<and> py_index (sents r) 0 = Inr sent
           \<and> tokenize (tok lb) (Str sent) (word_length self) True = Inr [w]"
proof -
  from g obtain r ori_img idx where r: "py_index (data self) index = Inr r"
    and "EndoVisDataset_sample lb self r ori_img idx aug = Inr s"
    by (auto simp: EndoVisDataset_getitem_def bindE_def split: option.splits sum.splits)
  then show ?thesis using endo_sample_val [OF v, of lb r ori_img idx aug s] by blast
qed

text \<open>
  C6: in the manifest-backed dataset, for an entry that is found and whose image file is read,
  \<^verbatim>\<open>__getitem__\<close> with the policy \<open>random\<close> goes on with the value that
  \<^verbatim>\<open>np.random.choice(num_sents)\<close> returns as the sentence index: for a positive \<open>num_sents\<close>
  that index lies in the range from 0 up to, and not including, \<open>num_sents\<close> (and the call
  raises ValueError when \<open>num_sents\<close> is not positive); with the policy \<open>first\<close> it goes on
  with index 0, and with any other policy it fails with the AssertionError that names the
  policy. In train mode the text tensor of a returned sample is the tokenization of the
  sentence at the index, and when the mask file is read and the steps succeed the train sample
  with that text tensor is returned. With a policy other than these two the call fails in
  every case and in every mode. Every index of the range is selected by equally many draws:
  among the first \<open>c * cnt\<close> draws, exactly \<open>c\<close> select a chosen index below \<open>cnt\<close>.
\<close>

theorem sentence_selection_policy:
  "(py_index (data self) index = Inr r
     \<and> imread_color lb (path_join (data_root self) (img_path r)) = Some ori_img \<longrightarrow>
      (sents_select_type self = ''random'' \<longrightarrow>
         (0 < num_sents r \<longrightarrow>
            select_sentence (sents_select_type self) (num_sents r) draw
              = Inr (int draw mod num_sents r)
            \<and> 0 \<le> int draw mod num_sents r \<and> int draw mod num_sents r < num_sents r
            \<and> EndoVisDataset_getitem lb self index draw aug
                = EndoVisDataset_sample lb self r ori_img (int draw mod num_sents r) aug)
         \<and> (num_sents r \<le> 0 \<longrightarrow>
              EndoVisDataset_getitem lb self index draw aug = Inl ValueError))
      \<and> (sents_select_type self = ''first'' \<longrightarrow>
            EndoVisDataset_getitem lb self index draw aug
              = EndoVisDataset_sample lb self r ori_img 0 aug)
      \<and> (sents_select_type self \<noteq> ''random'' \<and> sents_select_type self \<noteq> ''first'' \<longrightarrow>
            EndoVisDataset_getitem lb self index draw aug
              = Inl (AssertionError (''Not support sents_select_type: '' @ sents_select_type self)))
      \<and> (mode self = ''train'' \<longrightarrow>
            (\<forall>idx i w m. EndoVisDataset_sample lb self r ori_img idx aug = Inr (Train i w m) \<longrightarrow>
               (\<exists>sent. py_index (sents r) idx = Inr sent
                  \<and> tokenize (tok lb) (Str sent) (word_length self) True = Inr [w]))))
   \<and> (sents_select_type self \<noteq> ''random'' \<and> sents_select_type self \<noteq> ''first'' \<longrightarrow>
        (\<exists>e. EndoVisDataset_getitem lb self index draw aug = Inl e))
   \<and> (0 < cnt \<and> 0 \<le> j \<and> j < cnt \<longrightarrow>
        card {d. d < c * nat cnt \<and> select_sentence ''random'' cnt d = Inr j} = c)
   \<and> (py_index (data self) index = Inr r
        \<and> imread_color lb (path_join (data_root self) (img_path r)) = Some ori_img
        \<and> mode self = ''train''
        \<and> select_sentence (sents_select_type self) (num_sents r) draw = Inr idx
        \<and> getTransformMat self (shape2 (cvtColor_BGR2RGB ori_img)) True = Inr (mat, mat_inv)
        \<and> imread_gray lb (path_join (data_root self) (mask_path r)) = Some mk
        \<and> (if use_vis_aug self
            then albumentations lb (fst (input_size self)) aug
                   (warpAffine lb (cvtColor_BGR2RGB ori_img) mat (input_size self)
                      INTER_CUBIC border_value)
                   (div255 (warpAffine_gray lb mk mat (input_size self) INTER_LINEAR 0))
            else (warpAffine lb (cvtColor_BGR2RGB ori_img) mat (input_size self)
                    INTER_CUBIC border_value,
                  div255 (warpAffine_gray lb mk mat (input_size self) INTER_LINEAR 0)))
           = (img_a, msk_a)
        \<and> py_index (sents r) idx = Inr sent
        \<and> tokenize (tok lb) (Str sent) (word_length self) True = Inr [row]
        \<and> convert self img_a (Some msk_a) = Inr (t, m) \<longrightarrow>
        EndoVisDataset_getitem lb self index draw aug = Inr (Train t row m))"
  (is "?P1 \<and> ?P2 \<and> ?P3 \<and> ?P4")
proof -
  have p1: ?P1
  proof (intro impI)
    assume f: "py_index (data self) index = Inr r
     \<and> imread_color lb (path_join (data_root self) (img_path r)) = Some ori_img"
    have g: "EndoVisDataset_getitem lb self index draw aug =
           bindE (select_sentence (sents_select_type self) (num_sents r) draw)
             (\<lambda>idx. EndoVisDataset_sample lb self r ori_img idx aug)"
      using f endo_found [of self index r lb ori_img draw aug] by blast
    have c1: "sents_select_type self = ''random'' \<longrightarrow>
         (0 < num_sents r \<longrightarrow>
            select_sentence (sents_select_type self) (num_sents r) draw
              = Inr (int draw mod num_sents r)
            \<and> 0 \<le> int draw mod num_sents r \<and> int draw mod num_sents r < num_sents r
            \<and> EndoVisDataset_getitem lb self index draw aug
                = EndoVisDataset_sample lb self r ori_img (int draw mod num_sents r) aug)
         \<and> (num_sents r \<le> 0 \<longrightarrow>
              EndoVisDataset_getitem lb self index draw aug = Inl ValueError)"
      by (simp add: g select_sentence_def np_random_choice_def)
    have c2: "sents_select_type self = ''first'' \<longrightarrow>
            EndoVisDataset_getitem lb self index draw aug
              = EndoVisDataset_sample lb self r ori_img 0 aug"
      by (simp add: g select_sentence_def)
    have c3: "sents_select_type self \<noteq> ''random'' \<and> sents_select_type self \<noteq> ''first'' \<longrightarrow>
            EndoVisDataset_getitem lb self index draw aug
              = Inl (AssertionError (''Not support sents_select_type: '' @ sents_select_type self))"
      by (simp add: g select_sentence_def)
    have c4: "mode self = ''train'' \<longrightarrow>
            (\<forall>idx i w m. EndoVisDataset_sample lb self r ori_img idx aug = Inr (Train i w m) \<longrightarrow>
               (\<exists>sent. py_index (sents r) idx = Inr sent
                  \<and> tokenize (tok lb) (Str sent) (word_length self) True = Inr [w]))"
      using endo_sample_train_sentence [of self lb r ori_img _ aug] by blast
    show "(sents_select_type self = ''random'' \<longrightarrow>
         (0 < num_sents r \<longrightarrow>
            select_sentence (sents_select_type self) (num_sents r) draw
              = Inr (int draw mod num_sents r)
            \<and> 0 \<le> int draw mod num_sents r \<and> int draw mod num_sents r < num_sents r
            \<and> EndoVisDataset_getitem lb self index draw aug
                = EndoVisDataset_sample lb self r ori_img (int draw mod num_sents r) aug)
         \<and> (num_sents r \<le> 0 \<longrightarrow>
              EndoVisDataset_getitem lb self index draw aug = Inl ValueError))
      \<and> (sents_select_type self = ''first'' \<longrightarrow>
            EndoVisDataset_getitem lb self index draw aug
              = EndoVisDataset_sample lb self r ori_img 0 aug)
      \<and> (sents_select_type self \<noteq> ''random'' \<and> sents_select_type self \<noteq> ''first'' \<longrightarrow>
            EndoVisDataset_getitem lb self index draw aug
              = Inl (AssertionError (''Not support sents_select_type: '' @ sents_select_type self)))
      \<and> (mode self = ''train'' \<longrightarrow>
            (\<forall>idx i w m. EndoVisDataset_sample lb self r ori_img idx aug = Inr (Train i w m) \<longrightarrow>
               (\<exists>sent. py_index (sents r) idx = Inr sent
                  \<and> tokenize (tok lb) (Str sent) (word_length self) True = Inr [w])))"
      by (rule conjI [OF c1 conjI [OF c2 conjI [OF c3 c4]]])
  qed
  have p2: ?P2
    using endo_unsupported_policy [of self lb index draw aug] by blast
  have p3: ?P3
    using select_sentence_uniform [of cnt j c] by blast
  have p4: ?P4
  proof (intro impI)
    assume f: "py_index (data self) index = Inr r
        \<and> imread_color lb (path_join (data_root self) (img_path r)) = Some ori_img
        \<and> mode self = ''train''
        \<and> select_sentence (sents_select_type self) (num_sents r) draw = Inr idx
        \<and> getTransformMat self (shape2 (cvtColor_BGR2RGB ori_img)) True = Inr (mat, mat_inv)
        \<and> imread_gray lb (path_join (data_root self) (mask_path r)) = Some mk
        \<and> (if use_vis_aug self
            then albumentations lb (fst (input_size self)) aug
                   (warpAffine lb (cvtColor_BGR2RGB ori_img) mat (input_size self)
                      INTER_CUBIC border_value)
                   (div255 (warpAffine_gray lb mk mat (input_size self) INTER_LINEAR 0))
            else (warpAffine lb (cvtColor_BGR2RGB ori_img) mat (input_size self)
                    INTER_CUBIC border_value,
                  div255 (warpAffine_gray lb mk mat (input_size self) INTER_LINEAR 0)))
           = (img_a, msk_a)
        \<and> py_index (sents r) idx = Inr sent
        \<and> tokenize (tok lb) (Str sent) (word_length self) True = Inr [row]
        \<and> convert self img_a (Some msk_a) = Inr (t, m)"
    have fd: "py_index (data self) index = Inr r"
      "imread_color lb (path_join (data_root self) (img_path r)) = Some ori_img"
      "select_sentence (sents_select_type self) (num_sents r) draw = Inr idx"
      using f by blast+
    have hs: "mode self = ''train''"
      "getTransformMat self (shape2 (cvtColor_BGR2RGB ori_img)) True = Inr (mat, mat_inv)"
      "imread_gray lb (path_join (data_root self) (mask_path r)) = Some mk"
      "(if use_vis_aug self
            then albumentations lb (fst (input_size self)) aug
                   (warpAffine lb (cvtColor_BGR2RGB ori_img) mat (input_size self)
                      INTER_CUBIC border_value)
                   (div255 (warpAffine_gray lb mk mat (input_size self) INTER_LINEAR 0))
            else (warpAffine lb (cvtColor_BGR2RGB ori_img) mat (input_size self)
                    INTER_CUBIC border_value,
                  div255 (warpAffine_gray lb mk mat (input_size self) INTER_LINEAR 0)))
           = (img_a, msk_a)"
      "py_index (sents r) idx = Inr sent"
      "tokenize (tok lb) (Str sent) (word_length self) True = Inr [row]"
      "convert self img_a (Some msk_a) = Inr (t, m)"
      using f by blast+
    have "EndoVisDataset_getitem lb self index draw aug
            = EndoVisDataset_sample lb self r ori_img idx aug"
      by (simp add: endo_found [OF fd(1,2)] fd(3))
    then show "EndoVisDataset_getitem lb self index draw aug = Inr (Train t row m)"
      using endo_sample_train_ok [OF hs] by simp
  qed
  show ?thesis by (rule conjI [OF p1 conjI [OF p2 conjI [OF p3 p4]]])
qed

theorem sentence_selection_policy_witness:
  "py_index (data (toy_endovis ''train'' ''random'')) 0 = Inr toy_entry
   \<and> imread_color toy_libs
        (path_join (data_root (toy_endovis ''train'' ''random'')) (img_path toy_entry))
       = Some toy_image
   \<and> sents_select_type (toy_endovis ''train'' ''random'') = ''random''
   \<and> 0 < num_sents toy_entry
   \<and> select_sentence (sents_select_type (toy_endovis ''train'' ''random''))
         (num_sents toy_entry) 5 = Inr 1
   \<and> EndoVisDataset_getitem toy_libs (toy_endovis ''train'' ''random'') 0 5 0
       = EndoVisDataset_sample toy_libs (toy_endovis ''train'' ''random'') toy_entry toy_image 1 0
   \<and> mode (toy_endovis ''train'' ''random'') = ''train''
   \<and> imread_gray toy_libs
        (path_join (data_root (toy_endovis ''train'' ''random'')) (mask_path toy_entry))
       = Some toy_plane
   \<and> py_index (sents toy_entry) 1 = Inr ''c''
   \<and> tokenize (tok toy_libs) (Str ''c'') 4 True = Inr [[49406, 99, 49407, 0]]
   \<and> (\<exists>t m. convert (toy_endovis ''train'' ''random'') (cvtColor_BGR2RGB toy_image)
                (Some (div255 toy_plane)) = Inr (t, m)
            \<and> EndoVisDataset_getitem toy_libs (toy_endovis ''train'' ''random'') 0 5 0
                = Inr (Train t [49406, 99, 49407, 0] m))
   \<and> sents_select_type (toy_endovis ''train'' ''first'') = ''first''
   \<and> EndoVisDataset_getitem toy_libs (toy_endovis ''train'' ''first'') 0 5 0
       = EndoVisDataset_sample toy_libs (toy_endovis ''train'' ''first'') toy_entry toy_image 0 0
   \<and> py_index (sents toy_entry) 0 = Inr ''ab''
   \<and> tokenize (tok toy_libs) (Str ''ab'') 4 True = Inr [[49406, 97, 98, 49407]]
   \<and> (\<exists>t m. convert (toy_endovis ''train'' ''first'') (cvtColor_BGR2RGB toy_image)
                (Some (div255 toy_plane)) = Inr (t, m)
            \<and> EndoVisDataset_getitem toy_libs (toy_endovis ''train'' ''first'') 0 5 0
                = Inr (Train t [49406, 97, 98, 49407] m))
   \<and> sents_select_type (toy_endovis ''val'' ''bogus'') \<noteq> ''random''
   \<and> sents_select_type (toy_endovis ''val'' ''bogus'') \<noteq> ''first''
   \<and> EndoVisDataset_getitem toy_libs (toy_endovis ''val'' ''bogus'') 0 5 0
       = Inl (AssertionError ''Not support sents_select_type: bogus'')
   \<and> card {d. d < 3 * nat 2 \<and> select_sentence ''random'' 2 d = Inr 1} = 3"
proof -
  let ?R = "toy_endovis ''train'' ''random''"
  let ?F = "toy_endovis ''train'' ''first''"
  let ?B = "toy_endovis ''val'' ''bogus''"
  let ?M = "((25, 0, 0), (0, 25, 25 / 2)) :: mat"
  let ?MI = "((1 / 25, 0, 0), (0, 1 / 25, - 1 / 2)) :: mat"
  have fr: "py_index (data ?R) 0 = Inr toy_entry
     \<and> imread_color toy_libs (path_join (data_root ?R) (img_path toy_entry)) = Some toy_image"
    by (intro conjI) (rule toy_endo_facts)+
  have ff: "py_index (data ?F) 0 = Inr toy_entry
     \<and> imread_color toy_libs (path_join (data_root ?F) (img_path toy_entry)) = Some toy_image"
    by (intro conjI) (rule toy_endo_facts)+
  have fb: "py_index (data ?B) 0 = Inr toy_entry
     \<and> imread_color toy_libs (path_join (data_root ?B) (img_path toy_entry)) = Some toy_image"
    by (intro conjI) (rule toy_endo_facts)+
  have pr: "sents_select_type ?R = ''random''" and pf: "sents_select_type ?F = ''first''"
    and n: "0 < num_sents toy_entry"
    by (rule toy_endo_facts)+
  have pb: "sents_select_type ?B \<noteq> ''random'' \<and> sents_select_type ?B \<noteq> ''first''"
    by (simp add: toy_endo_facts)
  have ns: "num_sents toy_entry = 2" "sents toy_entry = [''ab'', ''c'']"
    by (simp_all add: toy_entry_def)
  have i5: "int 5 mod num_sents toy_entry = 1" by (simp add: ns)
  have s0: "py_index (sents toy_entry) 0 = Inr ''ab''" "py_index (sents toy_entry) 1 = Inr ''c''"
    by (simp_all add: ns py_index_def)
  have tk: "tokenize (tok toy_libs) (Str ''ab'') 4 True = Inr [[49406, 97, 98, 49407]]"
       "tokenize (tok toy_libs) (Str ''c'') 4 True = Inr [[49406, 99, 49407, 0]]"
    by (simp_all add: toy_libs_def tokenize_def tokenize_one_def char_tokenizer_def)
  have sh: "shape2 (cvtColor_BGR2RGB toy_image) = (1, 2)"
    by (simp add: shape2_def cvtColor_BGR2RGB_def toy_image_def)
  have md: "mode ?R = ''train''" "mode ?F = ''train''" by (rule toy_endo_facts)+
  have wl: "word_length ?R = 4" "word_length ?F = 4" by (simp_all add: toy_endovis_def)
  have mg: "imread_gray toy_libs (path_join (data_root ?R) (mask_path toy_entry)) = Some toy_plane"
       "imread_gray toy_libs (path_join (data_root ?F) (mask_path toy_entry)) = Some toy_plane"
    by (simp_all add: toy_endovis_def toy_entry_def toy_libs_def path_join_def)
  have ag: "(if use_vis_aug (toy_endovis ''train'' p)
            then albumentations toy_libs (fst (input_size (toy_endovis ''train'' p))) 0
                   (warpAffine toy_libs (cvtColor_BGR2RGB toy_image) ?M
                      (input_size (toy_endovis ''train'' p)) INTER_CUBIC border_value)
                   (div255 (warpAffine_gray toy_libs toy_plane ?M
                              (input_size (toy_endovis ''train'' p)) INTER_LINEAR 0))
            else (warpAffine toy_libs (cvtColor_BGR2RGB toy_image) ?M
                    (input_size (toy_endovis ''train'' p)) INTER_CUBIC border_value,
                  div255 (warpAffine_gray toy_libs toy_plane ?M
                            (input_size (toy_endovis ''train'' p)) INTER_LINEAR 0)))
           = (cvtColor_BGR2RGB toy_image, div255 toy_plane)" for p
    by (simp add: toy_endovis_def toy_libs_def)
  have gt: "getTransformMat (toy_endovis ''train'' p) (shape2 (cvtColor_BGR2RGB toy_image)) True
              = Inr (?M, Some ?MI)" for p
    unfolding sh by (rule toy_endo_transform)
  note q1 = sentence_selection_policy [where self = ?R and lb = toy_libs and index = 0
                and draw = 5 and aug = 0 and r = toy_entry and ori_img = toy_image,
              THEN conjunct1, THEN mp, OF fr, THEN conjunct1, THEN mp, OF pr,
              THEN conjunct1, THEN mp, OF n]
  have r0: "select_sentence (sents_select_type ?R) (num_sents toy_entry) 5 = Inr 1"
    using q1 [THEN conjunct1] unfolding i5 .
  have r1: "EndoVisDataset_getitem toy_libs ?R 0 5 0
              = EndoVisDataset_sample toy_libs ?R toy_entry toy_image 1 0"
    using q1 [THEN conjunct2, THEN conjunct2, THEN conjunct2] unfolding i5 .
  obtain tr mr where cr: "convert ?R (cvtColor_BGR2RGB toy_image) (Some (div255 toy_plane))
                            = Inr (tr, mr)"
    using toy_endo_convert [of "''train''" "''random''" "Some (div255 toy_plane)"] by blast
  have hr: "py_index (data ?R) 0 = Inr toy_entry
        \<and> imread_color toy_libs (path_join (data_root ?R) (img_path toy_entry)) = Some toy_image
        \<and> mode ?R = ''train''
        \<and> select_sentence (sents_select_type ?R) (num_sents toy_entry) 5 = Inr 1
        \<and> getTransformMat ?R (shape2 (cvtColor_BGR2RGB toy_image)) True = Inr (?M, Some ?MI)
        \<and> imread_gray toy_libs (path_join (data_root ?R) (mask_path toy_entry)) = Some toy_plane
        \<and> (if use_vis_aug ?R
            then albumentations toy_libs (fst (input_size ?R)) 0
                   (warpAffine toy_libs (cvtColor_BGR2RGB toy_image) ?M (input_size ?R)
                      INTER_CUBIC border_value)
                   (div255 (warpAffine_gray toy_libs toy_plane ?M (input_size ?R) INTER_LINEAR 0))
            else (warpAffine toy_libs (cvtColor_BGR2RGB toy_image) ?M (input_size ?R)
                    INTER_CUBIC border_value,
                  div255 (warpAffine_gray toy_libs toy_plane ?M (input_size ?R) INTER_LINEAR 0)))
           = (cvtColor_BGR2RGB toy_image, div255 toy_plane)
        \<and> py_index (sents toy_entry) 1 = Inr ''c''
        \<and> tokenize (tok toy_libs) (Str ''c'') (word_length ?R) True = Inr [[49406, 99, 49407, 0]]
        \<and> convert ?R (cvtColor_BGR2RGB toy_image) (Some (div255 toy_plane)) = Inr (tr, mr)"
    unfolding wl
    by (intro conjI) (rule fr [THEN conjunct1] fr [THEN conjunct2] md r0 gt mg ag s0 tk cr)+
  have r2: "EndoVisDataset_getitem toy_libs ?R 0 5 0 = Inr (Train tr [49406, 99, 49407, 0] mr)"
    by (rule sentence_selection_policy [where self = ?R and lb = toy_libs and index = 0
                and draw = 5 and aug = 0 and r = toy_entry and ori_img = toy_image
                and idx = 1 and mat = ?M and mat_inv = "Some ?MI" and mk = toy_plane
                and img_a = "cvtColor_BGR2RGB toy_image" and msk_a = "div255 toy_plane"
                and sent = "''c''" and row = "[49406, 99, 49407, 0]" and t = tr and m = mr,
              THEN conjunct2, THEN conjunct2, THEN conjunct2, THEN mp, OF hr])
  have e1: "\<exists>t m. convert ?R (cvtColor_BGR2RGB toy_image) (Some (div255 toy_plane)) = Inr (t, m)
            \<and> EndoVisDataset_getitem toy_libs ?R 0 5 0 = Inr (Train t [49406, 99, 49407, 0] m)"
    by (rule exI [of _ tr], rule exI [of _ mr]) (rule conjI [OF cr r2])
  have r3: "EndoVisDataset_getitem toy_libs ?F 0 5 0
              = EndoVisDataset_sample toy_libs ?F toy_entry toy_image 0 0"
    by (rule sentence_selection_policy [where self = ?F and lb = toy_libs and index = 0
                and draw = 5 and aug = 0 and r = toy_entry and ori_img = toy_image,
              THEN conjunct1, THEN mp, OF ff, THEN conjunct2, THEN conjunct1, THEN mp, OF pf])
  have sf: "select_sentence (sents_select_type ?F) (num_sents toy_entry) 5 = Inr 0"
    by (simp add: pf select_sentence_def)
  obtain tf mf where cf: "convert ?F (cvtColor_BGR2RGB toy_image) (Some (div255 toy_plane))
                            = Inr (tf, mf)"
    using toy_endo_convert [of "''train''" "''first''" "Some (div255 toy_plane)"] by blast
  have hf: "py_index (data ?F) 0 = Inr toy_entry
        \<and> imread_color toy_libs (path_join (data_root ?F) (img_path toy_entry)) = Some toy_image
        \<and> mode ?F = ''train''
        \<and> select_sentence (sents_select_type ?F) (num_sents toy_entry) 5 = Inr 0
        \<and> getTransformMat ?F (shape2 (cvtColor_BGR2RGB toy_image)) True = Inr (?M, Some ?MI)
        \<and> imread_gray toy_libs (path_join (data_root ?F) (mask_path toy_entry)) = Some toy_plane
        \<and> (if use_vis_aug ?F
            then albumentations toy_libs (fst (input_size ?F)) 0
                   (warpAffine toy_libs (cvtColor_BGR2RGB toy_image) ?M (input_size ?F)
                      INTER_CUBIC border_value)
                   (div255 (warpAffine_gray toy_libs toy_plane ?M (input_size ?F) INTER_LINEAR 0))
            else (warpAffine toy_libs (cvtColor_BGR2RGB toy_image) ?M (input_size ?F)
                    INTER_CUBIC border_value,
                  div255 (warpAffine_gray toy_libs toy_plane ?M (input_size ?F) INTER_LINEAR 0)))
           = (cvtColor_BGR2RGB toy_image, div255 toy_plane)
        \<and> py_index (sents toy_entry) 0 = Inr ''ab''
        \<and> tokenize (tok toy_libs) (Str ''ab'') (word_length ?F) True
            = Inr [[49406, 97, 98, 49407]]
        \<and> convert ?F (cvtColor_BGR2RGB toy_image) (Some (div255 toy_plane)) = Inr (tf, mf)"
    unfolding wl
    by (intro conjI) (rule ff [THEN conjunct1] ff [THEN conjunct2] md sf gt mg ag s0 tk cf)+
  have r4: "EndoVisDataset_getitem toy_libs ?F 0 5 0 = Inr (Train tf [49406, 97, 98, 49407] mf)"
    by (rule sentence_selection_policy [where self = ?F and lb = toy_libs and index = 0
                and draw = 5 and aug = 0 and r = toy_entry and ori_img = toy_image
                and idx = 0 and mat = ?M and mat_inv = "Some ?MI" and mk = toy_plane
                and img_a = "cvtColor_BGR2RGB toy_image" and msk_a = "div255 toy_plane"
                and sent = "''ab''" and row = "[49406, 97, 98, 49407]" and t = tf and m = mf,
              THEN conjunct2, THEN conjunct2, THEN conjunct2, THEN mp, OF hf])
  have e2: "\<exists>t m. convert ?F (cvtColor_BGR2RGB toy_image) (Some (div255 toy_plane)) = Inr (t, m)
            \<and> EndoVisDataset_getitem toy_libs ?F 0 5 0
                = Inr (Train t [49406, 97, 98, 49407] m)"
    by (rule exI [of _ tf], rule exI [of _ mf]) (rule conjI [OF cf r4])
  have r5: "EndoVisDataset_getitem toy_libs ?B 0 5 0
              = Inl (AssertionError (''Not support sents_select_type: '' @ sents_select_type ?B))"
    by (rule sentence_selection_policy [where self = ?B and lb = toy_libs and index = 0
                and draw = 5 and aug = 0 and r = toy_entry and ori_img = toy_image,
              THEN conjunct1, THEN mp, OF fb, THEN conjunct2, THEN conjunct2,
              THEN conjunct1, THEN mp, OF pb])
  have r5': "EndoVisDataset_getitem toy_libs ?B 0 5 0
              = Inl (AssertionError ''Not support sents_select_type: bogus'')"
    using r5 by (simp add: toy_endo_facts)
  have u: "(0::int) < 2 \<and> (0::int) \<le> 1 \<and> (1::int) < 2" by simp
  have r6: "card {d. d < 3 * nat 2 \<and> select_sentence ''random'' 2 d = Inr 1} = 3"
    by (rule sentence_selection_policy [where cnt = 2 and j = 1 and c = 3,
              THEN conjunct2, THEN conjunct2, THEN conjunct1, THEN mp, OF u])
  show ?thesis
    by (intro conjI) (rule fr [THEN conjunct1] fr [THEN conjunct2] pr n r0 r1 md mg s0 tk e1
          pf r3 e2 pb [THEN conjunct1] pb [THEN conjunct2] r5' r6)+
qed

text \<open>
  C10, as the claim states it: in val mode the configured policy is ignored and affects only
  train mode. It fails for a policy that is not supported: in val mode the toy manifest with
  the policy \<open>bogus\<close> raises the AssertionError, where the same manifest with the policy
  \<open>first\<close> returns a sample; the policy is checked before the mode is looked at.
\<close>

theorem val_mode_unsupported_policy_raises:
  "mode (toy_endovis ''val'' ''bogus'') = ''val''
   \<and> EndoVisDataset_getitem toy_libs (toy_endovis ''val'' ''bogus'') 0 0 0
       = Inl (AssertionError ''Not support sents_select_type: bogus'')
   \<and> EndoVisDataset_getitem toy_libs (toy_endovis ''val'' ''first'') 0 0 0
       \<noteq> EndoVisDataset_getitem toy_libs (toy_endovis ''val'' ''bogus'') 0 0 0"
proof -
  have b: "EndoVisDataset_getitem toy_libs (toy_endovis ''val'' ''bogus'') 0 0 0
       = Inl (AssertionError ''Not support sents_select_type: bogus'')"
    by (simp add: endo_found [of "toy_endovis ''val'' ''bogus''" 0 toy_entry toy_libs toy_image]
          toy_endo_facts select_sentence_def)
  have "EndoVisDataset_getitem toy_libs (toy_endovis ''val'' ''first'') 0 0 0
          = EndoVisDataset_sample toy_libs (toy_endovis ''val'' ''first'') toy_entry toy_image 0 0"
    by (simp add: endo_found [of "toy_endovis ''val'' ''first''" 0 toy_entry toy_libs toy_image]
          toy_endo_facts select_sentence_def)
  then obtain i q where "EndoVisDataset_getitem toy_libs (toy_endovis ''val'' ''first'') 0 0 0
          = Inr (Val i [49406, 97, 98, 49407] q)"
    using toy_endo_val_sample [of "''first''" 0 0] by auto
  then have n: "EndoVisDataset_getitem toy_libs (toy_endovis ''val'' ''first'') 0 0 0
       \<noteq> EndoVisDataset_getitem toy_libs (toy_endovis ''val'' ''bogus'') 0 0 0"
    by (simp add: b)
  show ?thesis
    by (intro conjI) (rule toy_endo_facts b n)+
qed

text \<open>
  C10, amended: in the manifest-backed dataset in val mode, the result of \<^verbatim>\<open>__getitem__\<close> does
  not depend on the random draw (nor on the augmentation), whatever the policy; for an entry
  with at least one sentence counted in \<open>num_sents\<close> the policies \<open>random\<close> and \<open>first\<close> give
  the same result; every sample that is returned is a val sample whose text tensor is the
  tokenization of the first sentence of the entry; and a policy other than \<open>random\<close> and
  \<open>first\<close> fails in val mode as in every mode: once the entry is found and its image file is
  read, the failure is the AssertionError that names the policy. With one of the two
  supported policies, on such an entry, when the transform, the tokenization of the first
  sentence and the conversion succeed, the call returns the val sample whose text tensor is
  the tokenization of the first sentence, with the parameters of the entry.
\<close>

theorem val_mode_first_sentence:
  assumes "mode self = ''val''"
  shows "(\<forall>d1 d2 a1 a2. EndoVisDataset_getitem lb self index d1 a1
                          = EndoVisDataset_getitem lb self index d2 a2)
     \<and> ((\<forall>r. py_index (data self) index = Inr r \<longrightarrow> 0 < num_sents r) \<longrightarrow>
          (\<forall>d1 d2 a1 a2.
             EndoVisDataset_getitem lb (self\<lparr>sents_select_type := ''random''\<rparr>) index d1 a1
               = EndoVisDataset_getitem lb (self\<lparr>sents_select_type := ''first''\<rparr>) index d2 a2))
     \<and> (\<forall>s. EndoVisDataset_getitem lb self index draw aug = Inr s \<longrightarrow>
          (\<exists>r i w p sent. py_index (data self) index = Inr r \<and> s = Val i w p
             \<and> py_index (sents r) 0 = Inr sent
             \<and> tokenize (tok lb) (Str sent) (word_length self) True = Inr [w]))
     \<and> (sents_select_type self \<noteq> ''random'' \<and> sents_select_type self \<noteq> ''first'' \<longrightarrow>
          (\<exists>e. EndoVisDataset_getitem lb self index draw aug = Inl e))
     \<and> (py_index (data self) index = Inr r
          \<and> imread_color lb (path_join (data_root self) (img_path r)) = Some ori_img
          \<and> sents_select_type self \<noteq> ''random'' \<and> sents_select_type self \<noteq> ''first'' \<longrightarrow>
          EndoVisDataset_getitem lb self index draw aug
            = Inl (AssertionError (''Not support sents_select_type: '' @ sents_select_type self)))
     \<and> (py_index (data self) index = Inr r
          \<and> imread_color lb (path_join (data_root self) (img_path r)) = Some ori_img
          \<and> (sents_select_type self = ''random'' \<and> 0 < num_sents r
               \<or> sents_select_type self = ''first'')
          \<and> getTransformMat self (shape2 (cvtColor_BGR2RGB ori_img)) True = Inr (mat, mat_inv)
          \<and> py_index (sents r) 0 = Inr sent
          \<and> tokenize (tok lb) (Str sent) (word_length self) True = Inr [row]
          \<and> convert self (warpAffine lb (cvtColor_BGR2RGB ori_img) mat (input_size self)
                            INTER_CUBIC border_value) None = Inr (t, m) \<longrightarrow>
          EndoVisDataset_getitem lb self index draw aug
            = Inr (Val t row
                     \<lparr>mask_path_p = path_join (data_root self) (mask_path r),
                      inverse_p = mat_inv,
                      ori_size_p = shape2 (cvtColor_BGR2RGB ori_img)\<rparr>))"
  (is "?P1 \<and> ?P2 \<and> ?P3 \<and> ?P4 \<and> ?P5 \<and> ?P6")
proof -
  have p1: ?P1 using endo_val_any_draw [OF assms] by blast
  have p2: ?P2 using endo_val_policy [OF assms] by blast
  have p3: ?P3 using endo_val_result [OF assms] by blast
  have p4: ?P4 using endo_unsupported_policy [of self lb index draw aug] by blast
  have p5: ?P5 using endo_assertion [of self index r lb ori_img draw aug] by blast
  have p6: ?P6
  proof (intro impI)
    assume f: "py_index (data self) index = Inr r
          \<and> imread_color lb (path_join (data_root self) (img_path r)) = Some ori_img
          \<and> (sents_select_type self = ''random'' \<and> 0 < num_sents r
               \<or> sents_select_type self = ''first'')
          \<and> getTransformMat self (shape2 (cvtColor_BGR2RGB ori_img)) True = Inr (mat, mat_inv)
          \<and> py_index (sents r) 0 = Inr sent
          \<and> tokenize (tok lb) (Str sent) (word_length self) True = Inr [row]
          \<and> convert self (warpAffine lb (cvtColor_BGR2RGB ori_img) mat (input_size self)
                            INTER_CUBIC border_value) None = Inr (t, m)"
    have fd: "py_index (data self) index = Inr r"
      "imread_color lb (path_join (data_root self) (img_path r)) = Some ori_img"
      using f by blast+
    have pol: "sents_select_type self = ''random'' \<and> 0 < num_sents r
               \<or> sents_select_type self = ''first''"
      using f by blast
    have hs: "getTransformMat self (shape2 (cvtColor_BGR2RGB ori_img)) True = Inr (mat, mat_inv)"
      "py_index (sents r) 0 = Inr sent"
      "tokenize (tok lb) (Str sent) (word_length self) True = Inr [row]"
      "convert self (warpAffine lb (cvtColor_BGR2RGB ori_img) mat (input_size self)
                            INTER_CUBIC border_value) None = Inr (t, m)"
      using f by blast+
    obtain idx where "EndoVisDataset_getitem lb self index draw aug
            = EndoVisDataset_sample lb self r ori_img idx aug"
      using pol by (auto simp: endo_found [OF fd] select_sentence_def np_random_choice_def)
    then show "EndoVisDataset_getitem lb self index draw aug
            = Inr (Val t row
                     \<lparr>mask_path_p = path_join (data_root self) (mask_path r),
                      inverse_p = mat_inv,
                      ori_size_p = shape2 (cvtColor_BGR2RGB ori_img)\<rparr>)"
      using endo_sample_val_ok [OF assms hs] by simp
  qed
  show ?thesis by (rule conjI [OF p1 conjI [OF p2 conjI [OF p3 conjI [OF p4 conjI [OF p5 p6]]]]])
qed

theorem val_mode_first_sentence_witness:
  "mode (toy_endovis ''val'' ''random'') = ''val''
   \<and> EndoVisDataset_getitem toy_libs (toy_endovis ''val'' ''random'') 0 0 0
       = EndoVisDataset_getitem toy_libs (toy_endovis ''val'' ''random'') 0 1 5
   \<and> py_index (data (toy_endovis ''val'' ''random'')) 0 = Inr toy_entry
   \<and> 0 < num_sents toy_entry
   \<and> EndoVisDataset_getitem toy_libs (toy_endovis ''val'' ''random'') 0 1 0
       = EndoVisDataset_getitem toy_libs (toy_endovis ''val'' ''first'') 0 0 0
   \<and> imread_color toy_libs
        (path_join (data_root (toy_endovis ''val'' ''random'')) (img_path toy_entry))
       = Some toy_image
   \<and> sents_select_type (toy_endovis ''val'' ''random'') = ''random''
   \<and> py_index (sents toy_entry) 0 = Inr ''ab''
   \<and> tokenize (tok toy_libs) (Str ''ab'') 4 True = Inr [[49406, 97, 98, 49407]]
   \<and> (\<exists>t. convert (toy_endovis ''val'' ''random'') (cvtColor_BGR2RGB toy_image) None
              = Inr (t, None)
          \<and> EndoVisDataset_getitem toy_libs (toy_endovis ''val'' ''random'') 0 5 0
              = Inr (Val t [49406, 97, 98, 49407]
                       \<lparr>mask_path_p = ''root/m.png'',
                        inverse_p = Some ((1 / 25, 0, 0), (0, 1 / 25, - 1 / 2)),
                        ori_size_p = (1, 2)\<rparr>))
   \<and> mode (toy_endovis ''val'' ''bogus'') = ''val''
   \<and> sents_select_type (toy_endovis ''val'' ''bogus'') \<noteq> ''random''
   \<and> sents_select_type (toy_endovis ''val'' ''bogus'') \<noteq> ''first''
   \<and> EndoVisDataset_getitem toy_libs (toy_endovis ''val'' ''bogus'') 0 5 0
       = Inl (AssertionError ''Not support sents_select_type: bogus'')"
proof -
  let ?V = "toy_endovis ''val'' ''random''"
  let ?B = "toy_endovis ''val'' ''bogus''"
  let ?M = "((25, 0, 0), (0, 25, 25 / 2)) :: mat"
  let ?MI = "((1 / 25, 0, 0), (0, 1 / 25, - 1 / 2)) :: mat"
  have v: "mode ?V = ''val''" and vb: "mode ?B = ''val''" by (rule toy_endo_facts)+
  note t = val_mode_first_sentence [OF v, where lb = toy_libs and index = 0 and draw = 1
                                     and aug = 0]
  have c1: "EndoVisDataset_getitem toy_libs ?V 0 0 0 = EndoVisDataset_getitem toy_libs ?V 0 1 5"
    using t [THEN conjunct1] by blast
  have h: "\<forall>r. py_index (data ?V) 0 = Inr r \<longrightarrow> 0 < num_sents r"
    by (simp add: toy_endo_facts)
  have u: "?V\<lparr>sents_select_type := ''random''\<rparr> = ?V"
      "?V\<lparr>sents_select_type := ''first''\<rparr> = toy_endovis ''val'' ''first''"
    by (simp_all add: toy_endovis_def)
  have c2: "EndoVisDataset_getitem toy_libs ?V 0 1 0
       = EndoVisDataset_getitem toy_libs (toy_endovis ''val'' ''first'') 0 0 0"
    using t [THEN conjunct2, THEN conjunct1, THEN mp, OF h] unfolding u by blast
  have fv: "py_index (data ?V) 0 = Inr toy_entry"
      "imread_color toy_libs (path_join (data_root ?V) (img_path toy_entry)) = Some toy_image"
      "sents_select_type ?V = ''random''" "0 < num_sents toy_entry"
    by (rule toy_endo_facts)+
  have ns: "sents toy_entry = [''ab'', ''c'']" by (simp add: toy_entry_def)
  have s0: "py_index (sents toy_entry) 0 = Inr ''ab''" by (simp add: ns py_index_def)
  have tk: "tokenize (tok toy_libs) (Str ''ab'') 4 True = Inr [[49406, 97, 98, 49407]]"
    by (simp add: toy_libs_def tokenize_def tokenize_one_def char_tokenizer_def)
  have sh: "shape2 (cvtColor_BGR2RGB toy_image) = (1, 2)"
    by (simp add: shape2_def cvtColor_BGR2RGB_def toy_image_def)
  have gt: "getTransformMat ?V (shape2 (cvtColor_BGR2RGB toy_image)) True = Inr (?M, Some ?MI)"
    unfolding sh by (rule toy_endo_transform)
  have w: "warpAffine toy_libs (cvtColor_BGR2RGB toy_image) ?M (input_size ?V)
             INTER_CUBIC border_value = cvtColor_BGR2RGB toy_image"
    by (simp add: toy_libs_def)
  have fl: "word_length ?V = 4" by (simp add: toy_endovis_def)
  have pm: "path_join (data_root ?V) (mask_path toy_entry) = ''root/m.png''"
    by (simp add: toy_endovis_def toy_entry_def path_join_def)
  obtain tv where cv: "convert ?V (cvtColor_BGR2RGB toy_image) None = Inr (tv, None)"
    using toy_endo_convert [of "''val''" "''random''" None] by auto
  have pol: "sents_select_type ?V = ''random'' \<and> 0 < num_sents toy_entry
             \<or> sents_select_type ?V = ''first''"
    using fv by blast
  have cvw: "convert ?V (warpAffine toy_libs (cvtColor_BGR2RGB toy_image) ?M (input_size ?V)
                           INTER_CUBIC border_value) None = Inr (tv, None)"
    unfolding w by (rule cv)
  have tkw: "tokenize (tok toy_libs) (Str ''ab'') (word_length ?V) True
               = Inr [[49406, 97, 98, 49407]]"
    unfolding fl by (rule tk)
  have hv: "py_index (data ?V) 0 = Inr toy_entry
          \<and> imread_color toy_libs (path_join (data_root ?V) (img_path toy_entry)) = Some toy_image
          \<and> (sents_select_type ?V = ''random'' \<and> 0 < num_sents toy_entry
               \<or> sents_select_type ?V = ''first'')
          \<and> getTransformMat ?V (shape2 (cvtColor_BGR2RGB toy_image)) True = Inr (?M, Some ?MI)
          \<and> py_index (sents toy_entry) 0 = Inr ''ab''
          \<and> tokenize (tok toy_libs) (Str ''ab'') (word_length ?V) True
              = Inr [[49406, 97, 98, 49407]]
          \<and> convert ?V (warpAffine toy_libs (cvtColor_BGR2RGB toy_image) ?M (input_size ?V)
                           INTER_CUBIC border_value) None = Inr (tv, None)"
    by (intro conjI) (rule fv pol gt s0 tkw cvw)+
  have r3: "EndoVisDataset_getitem toy_libs ?V 0 5 0
              = Inr (Val tv [49406, 97, 98, 49407]
                       \<lparr>mask_path_p = ''root/m.png'', inverse_p = Some ?MI,
                        ori_size_p = (1, 2)\<rparr>)"
    using val_mode_first_sentence [OF v, where lb = toy_libs and index = 0 and draw = 5
                and aug = 0 and r = toy_entry and ori_img = toy_image
                and mat = ?M and mat_inv = "Some ?MI" and sent = "''ab''"
                and row = "[49406, 97, 98, 49407]" and t = tv and m = None,
              THEN conjunct2, THEN conjunct2, THEN conjunct2, THEN conjunct2, THEN conjunct2,
              THEN mp, OF hv]
    unfolding pm sh .
  have e3: "\<exists>t. convert ?V (cvtColor_BGR2RGB toy_image) None = Inr (t, None)
          \<and> EndoVisDataset_getitem toy_libs ?V 0 5 0
              = Inr (Val t [49406, 97, 98, 49407]
                       \<lparr>mask_path_p = ''root/m.png'', inverse_p = Some ?MI,
                        ori_size_p = (1, 2)\<rparr>)"
    by (rule exI [of _ tv]) (rule conjI [OF cv r3])
  have pb: "sents_select_type ?B \<noteq> ''random''" "sents_select_type ?B \<noteq> ''first''"
    by (simp_all add: toy_endo_facts)
  have hb: "py_index (data ?B) 0 = Inr toy_entry
          \<and> imread_color toy_libs (path_join (data_root ?B) (img_path toy_entry)) = Some toy_image
          \<and> sents_select_type ?B \<noteq> ''random'' \<and> sents_select_type ?B \<noteq> ''first''"
    by (intro conjI) (rule toy_endo_facts pb)+
  have r5: "EndoVisDataset_getitem toy_libs ?B 0 5 0
              = Inl (AssertionError (''Not support sents_select_type: '' @ sents_select_type ?B))"
    by (rule val_mode_first_sentence [OF vb, where lb = toy_libs and index = 0 and draw = 5
                and aug = 0 and r = toy_entry and ori_img = toy_image,
              THEN conjunct2, THEN conjunct2, THEN conjunct2, THEN conjunct2, THEN conjunct1,
              THEN mp, OF hb])
  have r5': "EndoVisDataset_getitem toy_libs ?B 0 5 0
              = Inl (AssertionError ''Not support sents_select_type: bogus'')"
    using r5 by (simp add: toy_endo_facts)
  show ?thesis
    by (intro conjI) (rule v c1 fv c2 s0 tk e3 vb pb r5')+
qed

end
